theory Spec2Isabelle
  imports Main "HOL-Library.AList"
begin

section \<open>Outcomes of running a piece of the scraper\<close>

text \<open>
  A Python call either returns a value, raises an exception that nobody in the callee
  caught, or never returns (an \<^verbatim>\<open>await\<close> on a future that is never resolved).
\<close>

datatype exn = EOFError | ValueError | IndexError | InvalidStateError | OtherError

datatype 'a run = Done 'a | Raised exn | Hang


section \<open>Python strings\<close>

text \<open>
  Console lines are modelled as ASCII text. \<^verbatim>\<open>str.strip()\<close> removes the white space
  of \<^verbatim>\<open>str.isspace\<close> (code points 9 to 13 and 28 to 32) at both ends,
  \<^verbatim>\<open>str.lower()\<close> maps A..Z to a..z, and \<^verbatim>\<open>int(s)\<close> reads an optional sign
  and decimal digits, with single underscores between digits, after stripping; it
  raises \<^verbatim>\<open>ValueError\<close> on anything else, which is \<open>None\<close> here.
\<close>

definition isspace :: "char \<Rightarrow> bool" where
  "isspace c = (let n = (of_char c :: nat) in (9 \<le> n \<and> n \<le> 13) \<or> (28 \<le> n \<and> n \<le> 32))"

definition strip :: "string \<Rightarrow> string" where
  "strip s = rev (dropWhile isspace (rev (dropWhile isspace s)))"

definition lower_char :: "char \<Rightarrow> char" where
  "lower_char c =
     (let n = (of_char c :: nat) in if 65 \<le> n \<and> n \<le> 90 then char_of (n + 32) else c)"

definition lower :: "string \<Rightarrow> string" where
  "lower s = map lower_char s"

definition isdigit :: "char \<Rightarrow> bool" where
  "isdigit c = (let n = (of_char c :: nat) in 48 \<le> n \<and> n \<le> 57)"

definition digit_value :: "char \<Rightarrow> int" where
  "digit_value c = int (of_char c) - 48"

fun int_digits :: "int \<Rightarrow> string \<Rightarrow> int option" where
  "int_digits acc [] = Some acc"
| "int_digits acc [c] = (if isdigit c then Some (acc * 10 + digit_value c) else None)"
| "int_digits acc (c # d # cs) =
     (if isdigit c then int_digits (acc * 10 + digit_value c) (d # cs)
      else if c = CHR ''_'' \<and> isdigit d then int_digits acc (d # cs)
      else None)"

definition int_unsigned :: "string \<Rightarrow> int option" where
  "int_unsigned s =
     (case s of [] \<Rightarrow> None | c # cs \<Rightarrow> if isdigit c then int_digits 0 s else None)"

definition py_int :: "string \<Rightarrow> int option" where
  "py_int s =
     (case strip s of
        [] \<Rightarrow> None
      | c # cs \<Rightarrow>
          if c = CHR ''-'' then map_option uminus (int_unsigned cs)
          else if c = CHR ''+'' then int_unsigned cs
          else int_unsigned (c # cs))"

text \<open>\<^verbatim>\<open>str(n)\<close> of an integer, for the cells \<^verbatim>\<open>astype(str)\<close> converts.\<close>

function str_nat :: "nat \<Rightarrow> string" where
  "str_nat n =
     (if n < 10 then [char_of (48 + n)]
      else str_nat (n div 10) @ [char_of (48 + n mod 10)])"
  by pat_completeness auto
termination
  by (relation "measure id") auto

declare str_nat.simps [simp del]

definition str_int :: "int \<Rightarrow> string" where
  "str_int i = (if i < 0 then CHR ''-'' # str_nat (nat (- i)) else str_nat (nat i))"

text \<open>\<^verbatim>\<open>pattern in url\<close> on strings: \<open>pattern\<close> occurs in \<open>url\<close> as a block.\<close>

fun contains :: "string \<Rightarrow> string \<Rightarrow> bool" where
  "contains pattern [] = (pattern = [])"
| "contains pattern (c # cs) =
     (take (length pattern) (c # cs) = pattern \<or> contains pattern cs)"

section \<open>Data\<close>

text \<open>
  A link object is the dictionary the link query returns; the scraper reads three of
  its keys, each with \<^verbatim>\<open>.get\<close>, so a missing key is \<open>None\<close>.
\<close>

record link_obj =
  link_id :: "string option"
  state :: "string option"
  procurementLink :: "string option"

text \<open>
  A scalar of a table cell or of a JSON row: missing (\<^verbatim>\<open>NaN\<close>, \<^verbatim>\<open>None\<close>,
  \<^verbatim>\<open>null\<close>), text, an integer, a float (carried with the text \<^verbatim>\<open>str\<close> gives it)
  or a boolean.
\<close>

datatype cell = Missing | Text string | Integer int | Floating string | Boolean bool

type_synonym py_record = "(string \<times> cell) list"

text \<open>A \<^verbatim>\<open>DataFrame\<close>: column labels and rows, each row with one cell per column.\<close>

record dataframe =
  columns :: "string list"
  rows :: "cell list list"

text \<open>
  What \<^verbatim>\<open>pd.read_html\<close> does with a markup string: the frames found, a
  \<^verbatim>\<open>ValueError\<close> (pandas raises it when it finds no table) or another exception.
\<close>

datatype read_result = Frames "dataframe list" | ReadValueError | ReadError

text \<open>What \<^verbatim>\<open>client.action\<close> does: it raises, or returns the service's answer.\<close>

record ai_result =
  ai_success :: bool
  ai_data :: "py_record list"
  ai_rowCount :: "int option"
  ai_notes :: "string option"
  ai_error :: "string option"

datatype ai_outcome = ActionRaised | ActionReturned ai_result

text \<open>What \<^verbatim>\<open>client.mutation\<close> does: it raises, or returns the new document's id.\<close>

datatype mutation_outcome = MutationRaised | MutationReturned string

record payload =
  procurementUrlId :: "string option"
  payload_state :: string
  sourceUrl :: string
  payload_data :: "py_record list"
  payload_rowCount :: int

text \<open>
  What the browser and the operator do with one fresh page: whether navigation, the
  exposing of the hook and the injection of the selector succeed, which verification
  marker the page shows, and the markups with which the in-page script invokes
  \<^verbatim>\<open>window.returnHTML\<close>, in order.
\<close>

record page_script =
  goto_ok :: bool
  verification :: "string option"
  expose_ok :: bool
  inject_ok :: bool
  captures :: "string list"

text \<open>
  The name of a debug file, \<^verbatim>\<open>parse_failure_{timestamp}_{url_hash}.html\<close>: the
  time stamp, and the text whose MD5 gives the eight hex digits of the hash. The
  digest itself is kept symbolic.
\<close>

record debug_name =
  stamp :: string
  md5_prefix_of :: string

text \<open>What the run prints, by component (rules, blank lines and emoji left out).\<close>

datatype nav_msg =
    NavigationOptions int "int option"
  | PostScrapeOptions int int
  | LinkLine bool int string string
  | AlreadyLast
  | AlreadyFirst
  | NumberBetween int
  | InvalidInput
  | InvalidNumber
  | Goodbye

datatype link_msg =
    NoUrl
  | ProcessingLink int int string string
  | UsingWaitStrategy string
  | CouldNotLoad string
  | VerificationRequired string
  | SkippingLink
  | CouldNotExpose
  | InjectFailed
  | ElementCaptured
  | ParsedRows int
  | AutomaticParsingFailed
  | CaptureError
  | ParsedRowsManual int
  | NoDataParsed

text \<open>
  A recorded reason of the manual fallback, \<^verbatim>\<open>f"Attempt {attempt}: {error_msg}"\<close>:
  the attempt's number and what went wrong.
\<close>

datatype reason =
    NoTablesInPaste int
  | EmptyTable int
  | UserRejected int
  | PandasError int
  | AgentError int
  | Unexpected int

datatype manual_msg =
    ManualAttempt int int
  | PasteInstructions
  | InputCancelled
  | ReceivedChars int
  | SkippingManual
  | AttemptFailed reason
  | FoundTables int
  | ParsedManual int
  | Preview "py_record list"
  | TryDifferentHtml
  | AttemptingAgent
  | AgentAlsoFailed
  | ErrorSummary "reason list"

datatype parse_msg =
    ParsingHtml int
  | NoTablesFound
  | FoundFrames int
  | EmptyAfterCleaning
  | CouldNotParse
  | ParsingError
  | ParsedWithPandas int
  | DebugSaved debug_name
  | DebugSaveFailed
  | AttemptingAI
  | AIParsed int
  | AINotes string
  | AIFailed string
  | AICallError

datatype store_msg =
    UrlNotFound
  | Connecting string
  | Uploading
  | DataSaved string
  | SaveError

datatype tool_msg =
    Opening string
  | ToolCouldNotLoad string
  | ActionRequired
  | ElementSelected
  | NoStandardTables
  | ExtractedSample "cell list list" int
  | PandasCouldNotParse
  | ToolParsingError
  | SelectionError

datatype prompt =
    EnterChoice
  | EnterLinkNumber int
  | ContinueOrSkip
  | ManualPaste
  | TryAgain
  | LooksCorrect
  | NextSiteOrQuit

text \<open>What the run does to the outside, oldest first.\<close>

datatype event =
    Nav nav_msg
  | Link link_msg
  | Manual manual_msg
  | Parse parse_msg
  | Store store_msg
  | Tool tool_msg
  | Prompted prompt
  | NewPage
  | Stealth
  | Goto string string
  | ClosePage
  | Expose
  | Inject
  | ReadHtml string
  | WriteFile debug_name "string option" string
  | Action string "string option"
  | Mutation payload

section \<open>The world a run acts on\<close>

text \<open>
  The lines the operator will type, what has been done so far, whether the global
  \<^verbatim>\<open>client\<close> is set and the configured URL, and the behaviour of the outside:
  the tabular parser, the clock, the file system (whether a file can be written, and
  whether the directory for the debug files can be created), the \<open>n\<close>-th remote action,
  the \<open>n\<close>-th remote mutation and the \<open>n\<close>-th page opened.
\<close>

record world =
  console :: "string list"
  trace :: "event list"
  client :: bool
  convex_url :: "string option"
  read_html :: "string \<Rightarrow> read_result"
  clock :: string
  disk_ok :: bool
  debug_dir_ok :: bool
  action :: "nat \<Rightarrow> ai_outcome"
  mutation :: "nat \<Rightarrow> mutation_outcome"
  pages :: "nat \<Rightarrow> page_script"

definition emit :: "event \<Rightarrow> world \<Rightarrow> world" where
  "emit e w = w\<lparr>trace := trace w @ [e]\<rparr>"

text \<open>How often something of a kind has been done so far.\<close>

definition calls :: "(event \<Rightarrow> bool) \<Rightarrow> world \<Rightarrow> nat" where
  "calls kind w = length (filter kind (trace w))"

text \<open>
  \<^verbatim>\<open>input()\<close> reads the next line and raises \<^verbatim>\<open>EOFError\<close> when there is none;
  \<^verbatim>\<open>input(prompt)\<close> shows the prompt first.
\<close>

definition readline :: "world \<Rightarrow> string run \<times> world" where
  "readline w =
     (case console w of
        [] \<Rightarrow> (Raised EOFError, w)
      | l # ls \<Rightarrow> (Done l, w\<lparr>console := ls\<rparr>))"

definition input :: "prompt \<Rightarrow> world \<Rightarrow> string run \<times> world" where
  "input p w = readline (emit (Prompted p) w)"

section \<open>Link Queue Navigator\<close>

datatype nav = Quit | GoTo int

text \<open>
  \<^verbatim>\<open>display_link_menu\<close> prints one line for each link: the marker of the current
  one, its number, its state and its URL cut to fifty characters.
\<close>

definition display_url :: "string \<Rightarrow> string" where
  "display_url url = (if length url > 50 then take 50 url @ ''...'' else url)"

definition link_line :: "int option \<Rightarrow> nat \<times> link_obj \<Rightarrow> event" where
  "link_line current_index il =
     (case il of (i, link) \<Rightarrow>
        Nav (LinkLine (Some (int i) = current_index) (int i + 1)
               (case state link of None \<Rightarrow> ''Unknown'' | Some s \<Rightarrow> s)
               (display_url (case procurementLink link of None \<Rightarrow> ''N/A'' | Some u \<Rightarrow> u))))"

definition display_link_menu :: "link_obj list \<Rightarrow> int option \<Rightarrow> world \<Rightarrow> world" where
  "display_link_menu links current_index w =
     w\<lparr>trace := trace w @ map (link_line current_index) (enumerate 0 links)\<rparr>"

function get_user_selection :: "link_obj list \<Rightarrow> int option \<Rightarrow> world \<Rightarrow> nav run \<times> world" where
  "get_user_selection links current_index w =
     (let total = int (length links);
          w1 = emit (Nav (NavigationOptions total current_index)) w
      in case input EnterChoice w1 of
           (Raised e, w2) \<Rightarrow> (Raised e, w2)
         | (Hang, w2) \<Rightarrow> (Hang, w2)
         | (Done line, w2) \<Rightarrow>
             (let choice = lower (strip line) in
              if choice = ''q'' then (Done Quit, w2)
              else if choice = ''l'' then
                get_user_selection links current_index (display_link_menu links current_index w2)
              else if choice = ''n'' then
                (case current_index of
                   None \<Rightarrow> (Done (GoTo 0), w2)
                 | Some i \<Rightarrow>
                     if i < total - 1 then (Done (GoTo (i + 1)), w2)
                     else get_user_selection links current_index (emit (Nav AlreadyLast) w2))
              else if choice = ''p'' then
                (case current_index of
                   None \<Rightarrow> get_user_selection links current_index (emit (Nav AlreadyFirst) w2)
                 | Some i \<Rightarrow>
                     if i = 0 then
                       get_user_selection links current_index (emit (Nav AlreadyFirst) w2)
                     else (Done (GoTo (i - 1)), w2))
              else
                (case py_int choice of
                   Some num \<Rightarrow>
                     if 1 \<le> num \<and> num \<le> total then (Done (GoTo (num - 1)), w2)
                     else get_user_selection links current_index
                            (emit (Nav (NumberBetween total)) w2)
                 | None \<Rightarrow>
                     get_user_selection links current_index (emit (Nav InvalidInput) w2))))"
  by pat_completeness auto
termination
  by (relation "measure (\<lambda>(links, current_index, w). length (console w))")
     (auto simp: input_def readline_def emit_def display_link_menu_def split: list.splits)

declare get_user_selection.simps [simp del]

function get_post_scrape_action :: "link_obj list \<Rightarrow> int \<Rightarrow> world \<Rightarrow> nav run \<times> world" where
  "get_post_scrape_action links current_index w =
     (let total = int (length links);
          w1 = emit (Nav (PostScrapeOptions total current_index)) w
      in case input EnterChoice w1 of
           (Raised e, w2) \<Rightarrow> (Raised e, w2)
         | (Hang, w2) \<Rightarrow> (Hang, w2)
         | (Done line, w2) \<Rightarrow>
             (let choice = lower (strip line) in
              if choice = ''q'' then (Done Quit, w2)
              else if choice = ''l'' then
                get_post_scrape_action links current_index
                  (display_link_menu links (Some current_index) w2)
              else if choice = ''n'' then
                (if current_index < total - 1 then (Done (GoTo (current_index + 1)), w2)
                 else get_post_scrape_action links current_index (emit (Nav AlreadyLast) w2))
              else if choice = ''p'' then
                (if current_index > 0 then (Done (GoTo (current_index - 1)), w2)
                 else get_post_scrape_action links current_index (emit (Nav AlreadyFirst) w2))
              else if choice = ''r'' then (Done (GoTo current_index), w2)
              else if choice = ''j'' then
                (case input (EnterLinkNumber total) w2 of
                   (Raised e, w3) \<Rightarrow> (Raised e, w3)
                 | (Hang, w3) \<Rightarrow> (Hang, w3)
                 | (Done line2, w3) \<Rightarrow>
                     (case py_int (strip line2) of
                        Some num \<Rightarrow>
                          if 1 \<le> num \<and> num \<le> total then (Done (GoTo (num - 1)), w3)
                          else get_post_scrape_action links current_index
                                 (emit (Nav (NumberBetween total)) w3)
                      | None \<Rightarrow>
                          get_post_scrape_action links current_index
                            (emit (Nav InvalidNumber) w3)))
              else
                (case py_int choice of
                   Some num \<Rightarrow>
                     if 1 \<le> num \<and> num \<le> total then (Done (GoTo (num - 1)), w2)
                     else get_post_scrape_action links current_index
                            (emit (Nav (NumberBetween total)) w2)
                 | None \<Rightarrow>
                     get_post_scrape_action links current_index (emit (Nav InvalidInput) w2))))"
  by pat_completeness auto
termination
  by (relation "measure (\<lambda>(links, current_index, w). length (console w))")
     (auto simp: input_def readline_def emit_def display_link_menu_def split: list.splits)

declare get_post_scrape_action.simps [simp del]

section \<open>The remote store\<close>

text \<open>
  \<^verbatim>\<open>init_convex_client\<close> returns at once when the global client is set; otherwise
  it raises \<^verbatim>\<open>ValueError\<close> when no URL is configured, and sets the client.
\<close>

definition init_convex_client :: "world \<Rightarrow> unit run \<times> world" where
  "init_convex_client w =
     (if client w then (Done (), w)
      else case convex_url w of
             None \<Rightarrow> (Raised ValueError, emit (Store UrlNotFound) w)
           | Some u \<Rightarrow>
               if u = [] then (Raised ValueError, emit (Store UrlNotFound) w)
               else (Done (), (emit (Store (Connecting u)) w)\<lparr>client := True\<rparr>))"

fun is_mutation :: "event \<Rightarrow> bool" where
  "is_mutation (Mutation p) = True"
| "is_mutation e = False"

fun is_action :: "event \<Rightarrow> bool" where
  "is_action (Action h u) = True"
| "is_action e = False"

fun is_new_page :: "event \<Rightarrow> bool" where
  "is_new_page NewPage = True"
| "is_new_page e = False"

text \<open>
  \<^verbatim>\<open>save_procurement_data_to_convex\<close>: the client is initialised outside the
  \<^verbatim>\<open>try\<close>; the payload is built and the mutation called inside it, and any exception
  there is printed and turned into \<^verbatim>\<open>None\<close>.
\<close>

definition save_procurement_data_to_convex ::
  "link_obj \<Rightarrow> py_record list \<Rightarrow> world \<Rightarrow> string option run \<times> world" where
  "save_procurement_data_to_convex link parsed_data w =
     (case init_convex_client w of
        (Raised e, w1) \<Rightarrow> (Raised e, w1)
      | (Hang, w1) \<Rightarrow> (Hang, w1)
      | (Done u, w1) \<Rightarrow>
          (let payload = \<lparr>procurementUrlId = link_id link,
                          payload_state = (case state link of None \<Rightarrow> ''Unknown'' | Some s \<Rightarrow> s),
                          sourceUrl = (case procurementLink link of None \<Rightarrow> [] | Some l \<Rightarrow> l),
                          payload_data = parsed_data,
                          payload_rowCount = int (length parsed_data)\<rparr>;
               w2 = emit (Store Uploading) w1;
               outcome = mutation w2 (calls is_mutation w2);
               w3 = emit (Mutation payload) w2
           in case outcome of
                MutationReturned result \<Rightarrow> (Done (Some result), emit (Store (DataSaved result)) w3)
              | MutationRaised \<Rightarrow> (Done None, emit (Store SaveError) w3)))"

section \<open>Tabular parser\<close>

definition is_missing :: "cell \<Rightarrow> bool" where
  "is_missing c = (c = Missing)"

text \<open>\<^verbatim>\<open>dropna(how="all")\<close>: drop the rows whose cells are all missing.\<close>

definition dropna_rows :: "dataframe \<Rightarrow> dataframe" where
  "dropna_rows df = df\<lparr>rows := filter (\<lambda>r. \<not> list_all is_missing r) (rows df)\<rparr>"

text \<open>\<^verbatim>\<open>dropna(axis=1, how="all")\<close>: drop the columns whose cells are all missing.\<close>

definition dropna_columns :: "dataframe \<Rightarrow> dataframe" where
  "dropna_columns df =
     (let keep = filter (\<lambda>j. \<not> list_all (\<lambda>r. is_missing (r ! j)) (rows df))
                   [0 ..< length (columns df)]
      in \<lparr>columns = map (\<lambda>j. columns df ! j) keep,
          rows = map (\<lambda>r. map (\<lambda>j. r ! j) keep) (rows df)\<rparr>)"

text \<open>\<^verbatim>\<open>DataFrame.empty\<close>: an axis has length zero.\<close>

definition df_empty :: "dataframe \<Rightarrow> bool" where
  "df_empty df = (columns df = [] \<or> rows df = [])"

text \<open>\<^verbatim>\<open>fillna("")\<close> and, column by column, \<^verbatim>\<open>astype(str)\<close>.\<close>

fun fillna :: "cell \<Rightarrow> cell" where
  "fillna Missing = Text []"
| "fillna c = c"

fun astype_str :: "cell \<Rightarrow> cell" where
  "astype_str (Text s) = Text s"
| "astype_str (Integer i) = Text (str_int i)"
| "astype_str (Floating s) = Text s"
| "astype_str (Boolean b) = Text (if b then ''True'' else ''False'')"
| "astype_str Missing = Text ''nan''"

definition map_cells :: "(cell \<Rightarrow> cell) \<Rightarrow> dataframe \<Rightarrow> dataframe" where
  "map_cells f df = df\<lparr>rows := map (map f) (rows df)\<rparr>"

text \<open>
  \<^verbatim>\<open>to_dict(orient="records")\<close>: one dictionary for each row, keyed by the column
  labels; a label that occurs twice keeps its first place and its last value.
\<close>

definition to_dict :: "dataframe \<Rightarrow> py_record list" where
  "to_dict df =
     map (\<lambda>r. fold (\<lambda>kv d. AList.update (fst kv) (snd kv) d) (zip (columns df) r) []) (rows df)"

definition to_records :: "dataframe \<Rightarrow> py_record list" where
  "to_records main_df = to_dict (map_cells astype_str (map_cells fillna main_df))"

section \<open>Debug artifact and AI fallback\<close>

text \<open>
  \<^verbatim>\<open>save_debug_html\<close>: \<^verbatim>\<open>debug_dir.mkdir(exist_ok=True)\<close> comes first and is
  outside the \<^verbatim>\<open>try\<close>, so its exception leaves the function. The file name is made
  of the clock's reading and of the hash of \<^verbatim>\<open>source_url or ""\<close>; a failing write,
  inside the \<^verbatim>\<open>try\<close>, is printed and gives \<^verbatim>\<open>None\<close>.
\<close>

definition save_debug_html ::
  "string \<Rightarrow> string option \<Rightarrow> world \<Rightarrow> debug_name option run \<times> world" where
  "save_debug_html html_content source_url w =
     (if \<not> debug_dir_ok w then (Raised OtherError, w)
      else
        (let filename = \<lparr>stamp = clock w,
                          md5_prefix_of = (case source_url of None \<Rightarrow> [] | Some u \<Rightarrow> u)\<rparr>
         in if disk_ok w then
              (Done (Some filename),
               emit (Parse (DebugSaved filename))
                 (emit (WriteFile filename source_url html_content) w))
            else (Done None, emit (Parse DebugSaveFailed) w)))"

text \<open>
  \<^verbatim>\<open>parse_with_ai_agent\<close>: the client is initialised outside the \<^verbatim>\<open>try\<close>; the
  action is called inside it. Rows are returned as the service gave them, when it
  reports success and the row list is not empty.
\<close>

definition parse_with_ai_agent ::
  "string \<Rightarrow> string option \<Rightarrow> world \<Rightarrow> py_record list option run \<times> world" where
  "parse_with_ai_agent html_content source_url w =
     (case init_convex_client w of
        (Raised e, w1) \<Rightarrow> (Raised e, w1)
      | (Hang, w1) \<Rightarrow> (Hang, w1)
      | (Done u, w1) \<Rightarrow>
          (let w2 = emit (Parse AttemptingAI) w1;
               outcome = action w2 (calls is_action w2);
               w3 = emit (Action html_content source_url) w2
           in case outcome of
                ActionRaised \<Rightarrow> (Done None, emit (Parse AICallError) w3)
              | ActionReturned result \<Rightarrow>
                  if ai_success result \<and> ai_data result \<noteq> [] then
                    (let records = ai_data result;
                         w4 = emit (Parse (AIParsed (case ai_rowCount result of
                                                      None \<Rightarrow> int (length records)
                                                    | Some n \<Rightarrow> n))) w3
                     in (Done (Some records),
                         (case ai_notes result of
                            None \<Rightarrow> w4
                          | Some n \<Rightarrow> if n = [] then w4 else emit (Parse (AINotes n)) w4)))
                  else
                    (Done None,
                     emit (Parse (AIFailed (case ai_error result of
                                              None \<Rightarrow> ''Unknown error''
                                            | Some m \<Rightarrow> m))) w3)))"

section \<open>Tiered extraction: the automatic tiers\<close>

text \<open>
  What follows each failure of the structured parse in \<^verbatim>\<open>parse_html_to_records\<close>:
  the warning, the debug file, then the AI agent, which is not reached when saving the
  debug file raises.
\<close>

definition ai_fallback ::
  "parse_msg \<Rightarrow> string \<Rightarrow> string option \<Rightarrow> world \<Rightarrow> py_record list option run \<times> world" where
  "ai_fallback warning html_content source_url w =
     (case save_debug_html html_content source_url (emit (Parse warning) w) of
        (Done saved, w1) \<Rightarrow> parse_with_ai_agent html_content source_url w1
      | (Raised e, w1) \<Rightarrow> (Raised e, w1)
      | (Hang, w1) \<Rightarrow> (Hang, w1))"

text \<open>
  The same inside the \<^verbatim>\<open>try\<close> block, where an exception of the saving or of the
  agent is caught by the handlers of that block: \<^verbatim>\<open>except ValueError\<close> first, then
  \<^verbatim>\<open>except Exception\<close>, each of which saves and calls the agent again; what is
  raised inside a handler leaves the function.
\<close>

definition ai_fallback_in_try ::
  "parse_msg \<Rightarrow> string \<Rightarrow> string option \<Rightarrow> world \<Rightarrow> py_record list option run \<times> world" where
  "ai_fallback_in_try warning html_content source_url w =
     (case ai_fallback warning html_content source_url w of
        (Raised ValueError, w1) \<Rightarrow> ai_fallback CouldNotParse html_content source_url w1
      | (Raised e, w1) \<Rightarrow> ai_fallback ParsingError html_content source_url w1
      | (r, w1) \<Rightarrow> (r, w1))"

definition parse_html_to_records ::
  "string \<Rightarrow> string option \<Rightarrow> world \<Rightarrow> py_record list option run \<times> world" where
  "parse_html_to_records html_content source_url w =
     (let w1 = emit (ReadHtml html_content) (emit (Parse (ParsingHtml (int (length html_content)))) w)
      in case read_html w html_content of
           Frames dfs \<Rightarrow>
             (case dfs of
                [] \<Rightarrow> ai_fallback_in_try NoTablesFound html_content source_url w1
              | df # others \<Rightarrow>
                  (let w2 = emit (Parse (FoundFrames (int (length dfs)))) w1;
                       main_df = dropna_columns (dropna_rows df)
                   in if df_empty main_df then
                        ai_fallback_in_try EmptyAfterCleaning html_content source_url w2
                      else
                        (let records = to_records main_df
                         in (Done (Some records),
                             emit (Parse (ParsedWithPandas (int (length records)))) w2))))
         | ReadValueError \<Rightarrow> ai_fallback CouldNotParse html_content source_url w1
         | ReadError \<Rightarrow> ai_fallback ParsingError html_content source_url w1)"

section \<open>Tiered extraction: the manual tier\<close>

text \<open>
  The reading loop of \<^verbatim>\<open>get_manual_html_input\<close>: \<^verbatim>\<open>skip\<close> as the first line
  gives \<^verbatim>\<open>None\<close>; the second empty line in a row, or the end of the input, ends
  the paste.
\<close>

function read_paste :: "string list \<Rightarrow> nat \<Rightarrow> world \<Rightarrow> string list option \<times> world" where
  "read_paste lines empty_line_count w =
     (case readline w of
        (Done line, w1) \<Rightarrow>
          if lower (strip line) = ''skip'' \<and> lines = [] then (None, w1)
          else if line = [] then
            (if empty_line_count + 1 \<ge> 2 then (Some lines, w1)
             else read_paste (lines @ [line]) (empty_line_count + 1) w1)
          else read_paste (lines @ [line]) 0 w1
      | (r, w1) \<Rightarrow> (Some lines, w1))"
  by pat_completeness auto
termination
  by (relation "measure (\<lambda>(lines, empty_line_count, w). length (console w))")
     (auto simp: readline_def split: list.splits)

declare read_paste.simps [simp del]

fun join_lines :: "string list \<Rightarrow> string" where
  "join_lines [] = []"
| "join_lines [l] = l"
| "join_lines (l # ls) = l @ CHR 0x0A # join_lines ls"

definition get_manual_html_input :: "world \<Rightarrow> string option \<times> world" where
  "get_manual_html_input w =
     (case read_paste [] 0 (emit (Manual PasteInstructions) w) of
        (None, w1) \<Rightarrow> (None, w1)
      | (Some lines, w1) \<Rightarrow>
          (let html_content = strip (join_lines lines)
           in if html_content = [] then (None, w1)
              else (Some html_content,
                    emit (Manual (ReceivedChars (int (length html_content)))) w1)))"

text \<open>
  How one pass of the \<^verbatim>\<open>for\<close> loop of \<^verbatim>\<open>manual_html_fallback\<close> ends. In the
  pass, cleaning the frame and rendering the preview are taken not to raise, and
  \<^verbatim>\<open>KeyboardInterrupt\<close> is not modelled.
\<close>

datatype step = Return "py_record list option" | Break | Continue | Raise exn

text \<open>
  \<^verbatim>\<open>retry = input("Try again? [y/n]: ").strip().lower()\<close> and the \<^verbatim>\<open>break\<close>
  on anything but \<^verbatim>\<open>y\<close>, asked only before the last attempt.
\<close>

definition ask_retry :: "int \<Rightarrow> int \<Rightarrow> world \<Rightarrow> step \<times> world" where
  "ask_retry attempt max_retries w =
     (if attempt < max_retries then
        (case input TryAgain w of
           (Done retry, w1) \<Rightarrow> if lower (strip retry) \<noteq> ''y'' then (Break, w1) else (Continue, w1)
         | (Raised e, w1) \<Rightarrow> (Raise e, w1)
         | (Hang, w1) \<Rightarrow> (Raise OtherError, w1))
      else (Continue, w))"

text \<open>The handler \<^verbatim>\<open>except Exception\<close> of the loop's \<^verbatim>\<open>try\<close>.\<close>

definition unexpected_error ::
  "int \<Rightarrow> int \<Rightarrow> reason list \<Rightarrow> world \<Rightarrow> step \<times> reason list \<times> world" where
  "unexpected_error attempt max_retries errors w =
     (let errors1 = errors @ [Unexpected attempt];
          w1 = emit (Manual (AttemptFailed (Unexpected attempt))) w
      in case ask_retry attempt max_retries w1 of (s, w2) \<Rightarrow> (s, errors1, w2))"

text \<open>
  A failed attempt inside the \<^verbatim>\<open>try\<close>: the reason is recorded and printed and the
  operator asked; an exception of that question is caught by \<^verbatim>\<open>except Exception\<close>.
\<close>

definition failed_in_try ::
  "reason \<Rightarrow> int \<Rightarrow> int \<Rightarrow> reason list \<Rightarrow> world \<Rightarrow> step \<times> reason list \<times> world" where
  "failed_in_try why attempt max_retries errors w =
     (let errors1 = errors @ [why];
          w1 = emit (Manual (AttemptFailed why)) w
      in case ask_retry attempt max_retries w1 of
           (Raise e, w2) \<Rightarrow> unexpected_error attempt max_retries errors1 w2
         | (s, w2) \<Rightarrow> (s, errors1, w2))"

definition truthy :: "py_record list option \<Rightarrow> bool" where
  "truthy r = (case r of None \<Rightarrow> False | Some records \<Rightarrow> records \<noteq> [])"

definition manual_attempt ::
  "string option \<Rightarrow> int \<Rightarrow> int \<Rightarrow> reason list \<Rightarrow> world \<Rightarrow> step \<times> reason list \<times> world" where
  "manual_attempt source_url max_retries attempt errors w =
     (case get_manual_html_input (emit (Manual (ManualAttempt attempt max_retries)) w) of
        (None, w1) \<Rightarrow> (Return None, errors, emit (Manual SkippingManual) w1)
      | (Some html_content, w1) \<Rightarrow>
          (let w2 = emit (ReadHtml html_content) w1
           in case read_html w html_content of
                Frames dfs \<Rightarrow>
                  (case dfs of
                     [] \<Rightarrow> failed_in_try (NoTablesInPaste attempt) attempt max_retries errors w2
                   | df # others \<Rightarrow>
                       (let w3 = emit (Manual (FoundTables (int (length dfs)))) w2;
                            main_df = dropna_columns (dropna_rows df)
                        in if df_empty main_df then
                             failed_in_try (EmptyTable attempt) attempt max_retries errors w3
                           else
                             (let records = to_records main_df;
                                  w4 = emit (Manual (Preview (take 5 records)))
                                         (emit (Manual (ParsedManual (int (length records)))) w3)
                              in case input LooksCorrect w4 of
                                   (Done confirm, w5) \<Rightarrow>
                                     if lower (strip confirm) = ''y'' then
                                       (Return (Some records), errors, w5)
                                     else
                                       (Continue, errors @ [UserRejected attempt],
                                        if attempt < max_retries
                                        then emit (Manual TryDifferentHtml) w5 else w5)
                                 | (r, w5) \<Rightarrow> unexpected_error attempt max_retries errors w5)))
              | ReadValueError \<Rightarrow>
                  (let errors1 = errors @ [PandasError attempt];
                       w3 = emit (Manual AttemptingAgent)
                              (emit (Manual (AttemptFailed (PandasError attempt))) w2)
                   in case parse_with_ai_agent html_content source_url w3 of
                        (Done result, w4) \<Rightarrow>
                          if truthy result then (Return result, errors1, w4)
                          else (case ask_retry attempt max_retries w4 of
                                  (s, w5) \<Rightarrow> (s, errors1, w5))
                      | (r, w4) \<Rightarrow>
                          (case ask_retry attempt max_retries (emit (Manual AgentAlsoFailed) w4) of
                             (s, w5) \<Rightarrow> (s, errors1 @ [AgentError attempt], w5)))
              | ReadError \<Rightarrow> unexpected_error attempt max_retries errors w2))"

text \<open>
  The loop \<^verbatim>\<open>for attempt in range(1, max_retries + 1)\<close> and the summary that
  follows it: the header and one line for each recorded reason.
\<close>

function manual_attempts ::
  "string option \<Rightarrow> int \<Rightarrow> int \<Rightarrow> reason list \<Rightarrow> world \<Rightarrow> py_record list option run \<times> world" where
  "manual_attempts source_url max_retries attempt errors w =
     (if attempt > max_retries then (Done None, emit (Manual (ErrorSummary errors)) w)
      else case manual_attempt source_url max_retries attempt errors w of
             (Return v, errors1, w1) \<Rightarrow> (Done v, w1)
           | (Break, errors1, w1) \<Rightarrow> (Done None, emit (Manual (ErrorSummary errors1)) w1)
           | (Continue, errors1, w1) \<Rightarrow>
               manual_attempts source_url max_retries (attempt + 1) errors1 w1
           | (Raise e, errors1, w1) \<Rightarrow> (Raised e, w1))"
  by pat_completeness auto
termination
  by (relation "measure (\<lambda>(source_url, max_retries, attempt, errors, w).
                   nat (max_retries + 1 - attempt))") auto

declare manual_attempts.simps [simp del]

definition manual_html_fallback ::
  "string option \<Rightarrow> int \<Rightarrow> world \<Rightarrow> py_record list option run \<times> world" where
  "manual_html_fallback source_url max_retries w = manual_attempts source_url max_retries 1 [] w"

section \<open>The capture future and the hook exposed to the page\<close>

text \<open>
  \<^verbatim>\<open>future = loop.create_future()\<close> starts pending. \<^verbatim>\<open>future.done()\<close> is true
  once it has a result or was cancelled; \<^verbatim>\<open>future.set_result\<close> raises
  \<^verbatim>\<open>InvalidStateError\<close> on a future that is already done.
\<close>

datatype future = Pending | Result string | Cancelled

definition create_future :: future where
  "create_future = Pending"

fun future_done :: "future \<Rightarrow> bool" where
  "future_done Pending = False"
| "future_done (Result v) = True"
| "future_done Cancelled = True"

fun set_result :: "future \<Rightarrow> string \<Rightarrow> future run" where
  "set_result Pending v = Done (Result v)"
| "set_result (Result u) v = Raised InvalidStateError"
| "set_result Cancelled v = Raised InvalidStateError"

text \<open>
  \<^verbatim>\<open>
  def on_selection(html_content):
      if not future.done():
          future.set_result(html_content)
  \<close>
  The closure's only state is the future, which the model passes in and returns.
  The same function is in scraper.py, scraper_tool.py and scraper3.py.
\<close>

definition on_selection :: "string \<Rightarrow> future \<Rightarrow> future run" where
  "on_selection html_content fut =
     (if \<not> future_done fut then set_result fut html_content else Done fut)"

text \<open>The in-page script invoking \<^verbatim>\<open>window.returnHTML\<close> several times in a row.\<close>

fun hook_calls :: "string list \<Rightarrow> future \<Rightarrow> future run" where
  "hook_calls [] fut = Done fut"
| "hook_calls (m # ms) fut =
     (case on_selection m fut of
        Done fut' \<Rightarrow> hook_calls ms fut'
      | Raised e \<Rightarrow> Raised e
      | Hang \<Rightarrow> Hang)"

text \<open>\<^verbatim>\<open>html_data = await future\<close>: the result once there is one, no return before.\<close>

fun await :: "future \<Rightarrow> string run" where
  "await Pending = Hang"
| "await (Result v) = Done v"
| "await Cancelled = Raised OtherError"

section \<open>Processing one link (scraper3.py)\<close>

definition LINK_WAIT_STRATEGIES :: "(string \<times> string) list" where
  "LINK_WAIT_STRATEGIES = [(''opengov'', ''networkidle'')]"

definition get_wait_strategy :: "string \<Rightarrow> string option" where
  "get_wait_strategy url =
     (case filter (\<lambda>ps. contains (fst ps) (lower url)) LINK_WAIT_STRATEGIES of
        [] \<Rightarrow> None
      | ps # others \<Rightarrow> Some (snd ps))"

text \<open>
  The rows of a tier are stored and the page closed; the result of the store is not
  looked at. An exception of the store's initialisation leaves the \<^verbatim>\<open>try\<close> block.
\<close>

definition store_and_close ::
  "link_obj \<Rightarrow> py_record list option \<Rightarrow> world \<Rightarrow> bool run \<times> world" where
  "store_and_close link parsed_data w =
     (case save_procurement_data_to_convex link
             (case parsed_data of None \<Rightarrow> [] | Some records \<Rightarrow> records) w of
        (Done saved, w1) \<Rightarrow> (Done True, emit ClosePage w1)
      | (Raised e, w1) \<Rightarrow> (Raised e, w1)
      | (Hang, w1) \<Rightarrow> (Hang, w1))"

text \<open>
  The question \<^verbatim>\<open>Manually paste HTML? [y/n]\<close> and the manual fallback with
  \<^verbatim>\<open>max_retries=3\<close>; \<open>no_data\<close> is the message of the \<^verbatim>\<open>else\<close> branch, which
  the exception handler does not print.
\<close>

definition offer_manual :: "link_obj \<Rightarrow> string \<Rightarrow> bool \<Rightarrow> world \<Rightarrow> bool run \<times> world" where
  "offer_manual link url no_data w =
     (case input ManualPaste w of
        (Raised e, w1) \<Rightarrow> (Raised e, w1)
      | (Hang, w1) \<Rightarrow> (Hang, w1)
      | (Done manual_choice, w1) \<Rightarrow>
          (let give_up = (\<lambda>v. (Done False,
                                emit ClosePage (if no_data then emit (Link NoDataParsed) v else v)))
           in if lower (strip manual_choice) = ''y'' then
                (case manual_html_fallback (Some url) 3 w1 of
                   (Done parsed_data, w2) \<Rightarrow>
                     if truthy parsed_data then
                       store_and_close link parsed_data
                         (emit (Link (ParsedRowsManual
                            (int (length (case parsed_data of None \<Rightarrow> [] | Some r \<Rightarrow> r))))) w2)
                     else give_up w2
                 | (Raised e, w2) \<Rightarrow> (Raised e, w2)
                 | (Hang, w2) \<Rightarrow> (Hang, w2))
              else give_up w1))"

text \<open>
  The \<^verbatim>\<open>try\<close> block: wait for the capture, run the automatic tiers, store the rows
  or offer the manual tier.
\<close>

definition capture_and_parse :: "link_obj \<Rightarrow> string \<Rightarrow> future \<Rightarrow> world \<Rightarrow> bool run \<times> world" where
  "capture_and_parse link url fut w =
     (case await fut of
        Hang \<Rightarrow> (Hang, w)
      | Raised e \<Rightarrow> (Raised e, w)
      | Done html_data \<Rightarrow>
          (case parse_html_to_records html_data (Some url) (emit (Link ElementCaptured) w) of
             (Done parsed_data, w1) \<Rightarrow>
               if truthy parsed_data then
                 store_and_close link parsed_data
                   (emit (Link (ParsedRows
                      (int (length (case parsed_data of None \<Rightarrow> [] | Some r \<Rightarrow> r))))) w1)
               else offer_manual link url True (emit (Link AutomaticParsingFailed) w1)
           | (Raised e, w1) \<Rightarrow> (Raised e, w1)
           | (Hang, w1) \<Rightarrow> (Hang, w1)))"

text \<open>
  \<^verbatim>\<open>process_link\<close>. The page's diagnostics only print and are left out, and
  \<open>Stealth\<close> is the call of \<^verbatim>\<open>apply_stealth\<close>, which catches what the patch raises.
  The future is resolved by the invocations of the hook that the page makes while the
  host waits. Rendering the data sample is taken not to raise.
\<close>

definition process_link :: "link_obj \<Rightarrow> int \<Rightarrow> int \<Rightarrow> world \<Rightarrow> bool run \<times> world" where
  "process_link link index total_n w =
     (case procurementLink link of
        None \<Rightarrow> (Done False, emit (Link NoUrl) w)
      | Some url \<Rightarrow>
          if url = [] then (Done False, emit (Link NoUrl) w)
          else
            (let w1 = emit (Link (ProcessingLink (index + 1) total_n
                         (case state link of None \<Rightarrow> ''Unknown'' | Some s \<Rightarrow> s) url)) w;
                 wait_strategy = get_wait_strategy url;
                 w2 = (case wait_strategy of
                         None \<Rightarrow> w1
                       | Some s \<Rightarrow> emit (Link (UsingWaitStrategy s)) w1);
                 page = pages w2 (calls is_new_page w2);
                 w3 = emit Stealth (emit NewPage w2);
                 w4 = emit (Goto url (case wait_strategy of
                                        None \<Rightarrow> ''domcontentloaded''
                                      | Some s \<Rightarrow> s)) w3
             in if \<not> goto_ok page then
                  (Done False, emit ClosePage (emit (Link (CouldNotLoad url)) w4))
                else
                  (case input ContinueOrSkip
                          (case verification page of
                             None \<Rightarrow> w4
                           | Some v \<Rightarrow> emit (Link (VerificationRequired v)) w4) of
                     (Raised e, w5) \<Rightarrow> (Raised e, w5)
                   | (Hang, w5) \<Rightarrow> (Hang, w5)
                   | (Done skip_choice, w5) \<Rightarrow>
                       if lower (strip skip_choice) = ''s'' then
                         (Done False, emit ClosePage (emit (Link SkippingLink) w5))
                       else if \<not> expose_ok page then
                         (Done False, emit ClosePage (emit (Link CouldNotExpose) (emit Expose w5)))
                       else if \<not> inject_ok page then
                         (Done False,
                          emit ClosePage (emit (Link InjectFailed) (emit Inject (emit Expose w5))))
                       else
                         (case hook_calls (captures page) create_future of
                            Done fut \<Rightarrow>
                              (case capture_and_parse link url fut (emit Inject (emit Expose w5)) of
                                 (Raised e, w6) \<Rightarrow>
                                   offer_manual link url False (emit (Link CaptureError) w6)
                               | (r, w6) \<Rightarrow> (r, w6))
                          | Raised e \<Rightarrow> (Hang, emit Inject (emit Expose w5))
                          | Hang \<Rightarrow> (Hang, emit Inject (emit Expose w5))))))"

section \<open>The session loop (scraper3.py)\<close>

text \<open>\<^verbatim>\<open>links[current_index]\<close>: a negative index counts from the end.\<close>

definition py_index :: "'a list \<Rightarrow> int \<Rightarrow> 'a option" where
  "py_index xs i =
     (if 0 \<le> i \<and> i < int (length xs) then Some (xs ! nat i)
      else if - int (length xs) \<le> i \<and> i < 0 then Some (xs ! nat (int (length xs) + i))
      else None)"

text \<open>
  One pass of \<^verbatim>\<open>while True\<close> in \<^verbatim>\<open>main\<close>: the link at the current position is
  processed, its result dropped, and the operator asked what to do next.
\<close>

definition main_iteration :: "link_obj list \<Rightarrow> int \<Rightarrow> world \<Rightarrow> nav run \<times> world" where
  "main_iteration links current_index w =
     (case py_index links current_index of
        None \<Rightarrow> (Raised IndexError, w)
      | Some link \<Rightarrow>
          (case process_link link current_index (int (length links)) w of
             (Done processed, w1) \<Rightarrow> get_post_scrape_action links current_index w1
           | (Raised e, w1) \<Rightarrow> (Raised e, w1)
           | (Hang, w1) \<Rightarrow> (Hang, w1)))"

section \<open>Processing one link (scraper_tool.py)\<close>




section \<open>The in-page selector with the hotkey (scraper.py)\<close>

text \<open>
  A DOM element as the selector uses it: its tag, its \<^verbatim>\<open>outerHTML\<close> and its parent.
  \<^verbatim>\<open>closest('table')\<close> is the element itself or its nearest ancestor that is a table.
\<close>

datatype element = Element string string "element option"

fun outerHTML :: "element \<Rightarrow> string" where
  "outerHTML (Element tag html parent) = html"

fun closest_table :: "element \<Rightarrow> element option" where
  "closest_table (Element tag html None) =
     (if tag = ''table'' then Some (Element tag html None) else None)"
| "closest_table (Element tag html (Some parent)) =
     (if tag = ''table'' then Some (Element tag html (Some parent)) else closest_table parent)"

datatype background = Purple | Red | Green

datatype status_text = SelectorActive | NoElementHighlighted | CapturedProcessing

record banner =
  background :: background
  status :: status_text

datatype timer_action = RevertBanner | RemoveBanner

datatype target = OnBanner | OnElement element

record key_event =
  ctrlKey :: bool
  altKey :: bool
  key :: string

text \<open>
  The state the injected script closes over, with what it has done to the page: the
  two listeners on the document, the banner, the element that carries the highlight
  class, the pending timeouts, how many events had their default action cancelled, and
  the arguments with which \<^verbatim>\<open>window.returnHTML\<close> was invoked.
\<close>

record selector =
  isActive :: bool
  lastElement :: "element option"
  mouseover_listener :: bool
  keydown_listener :: bool
  banner_of :: banner
  banner_attached :: bool
  highlighted :: "element option"
  timers :: "(nat \<times> timer_action) list"
  prevented :: nat
  sent :: "string list"

definition SELECTOR_JS :: selector where
  "SELECTOR_JS =
     \<lparr>isActive = True, lastElement = None, mouseover_listener = True,
      keydown_listener = True,
      banner_of = \<lparr>background = Purple, status = SelectorActive\<rparr>,
      banner_attached = True, highlighted = None, timers = [], prevented = 0, sent = []\<rparr>"

definition mouseOverHandler :: "target \<Rightarrow> selector \<Rightarrow> selector" where
  "mouseOverHandler event_target s =
     (if \<not> isActive s then s
      else case event_target of
             OnBanner \<Rightarrow> s
           | OnElement e \<Rightarrow> s\<lparr>highlighted := Some e, lastElement := Some e\<rparr>)"

definition keydownHandler :: "key_event \<Rightarrow> selector \<Rightarrow> selector" where
  "keydownHandler event s =
     (if \<not> isActive s then s
      else if ctrlKey event \<and> altKey event \<and> lower (key event) = ''s'' then
        (let s1 = s\<lparr>prevented := prevented s + 1\<rparr>
         in case lastElement s of
              None \<Rightarrow>
                s1\<lparr>banner_of := \<lparr>background = Red, status = NoElementHighlighted\<rparr>,
                   timers := timers s @ [(2000, RevertBanner)]\<rparr>
            | Some target \<Rightarrow>
                (let tableObj = (case closest_table target of None \<Rightarrow> target | Some t \<Rightarrow> t)
                 in s1\<lparr>isActive := False,
                       mouseover_listener := False,
                       keydown_listener := False,
                       banner_of := \<lparr>background = Green, status = CapturedProcessing\<rparr>,
                       highlighted := None,
                       timers := timers s @ [(1500, RemoveBanner)],
                       sent := sent s @ [outerHTML tableObj]\<rparr>))
      else s)"

text \<open>The document delivers an event to a listener that is installed.\<close>

definition mouseover :: "target \<Rightarrow> selector \<Rightarrow> selector" where
  "mouseover event_target s =
     (if mouseover_listener s then mouseOverHandler event_target s else s)"

definition keydown :: "key_event \<Rightarrow> selector \<Rightarrow> selector" where
  "keydown event s = (if keydown_listener s then keydownHandler event s else s)"

text \<open>A timeout's callback runs.\<close>

fun run_timer :: "timer_action \<Rightarrow> selector \<Rightarrow> selector" where
  "run_timer RevertBanner s =
     s\<lparr>banner_of := \<lparr>background = Purple, status = SelectorActive\<rparr>\<rparr>"
| "run_timer RemoveBanner s = s\<lparr>banner_attached := False\<rparr>"

section \<open>Worlds and observations used in the statements\<close>

text \<open>The world after a menu was shown and a line was read at its prompt.\<close>

definition prompted :: "event \<Rightarrow> prompt \<Rightarrow> world \<Rightarrow> world" where
  "prompted menu p w = (emit (Prompted p) (emit menu w))\<lparr>console := tl (console w)\<rparr>"

text \<open>
  The world after a choice was rejected: the line is consumed, the menu, the prompt and
  the warning are shown, and nothing else has changed.
\<close>

definition rejected :: "event \<Rightarrow> nav_msg \<Rightarrow> string list \<Rightarrow> world \<Rightarrow> world" where
  "rejected menu warning ls w =
     w\<lparr>console := ls, trace := trace w @ [menu, Prompted EnterChoice, Nav warning]\<rparr>"

text \<open>
  The positions at which \<^verbatim>\<open>main\<close> starts a pass of its loop, in a session that
  begins in the world \<open>w0\<close>: the first one is selected from the undefined position,
  after the list of links was shown; each later one is what the pass before it
  returned. Launching the browser between the two does nothing that the world records.
\<close>

inductive visits :: "link_obj list \<Rightarrow> world \<Rightarrow> int \<Rightarrow> world \<Rightarrow> bool"
  for links :: "link_obj list" and w0 :: world where
    first: "get_user_selection links None (display_link_menu links None w0) = (Done (GoTo i), w)
            \<Longrightarrow> visits links w0 i w"
  | again: "visits links w0 i w \<Longrightarrow> main_iteration links i w = (Done (GoTo j), w')
            \<Longrightarrow> visits links w0 j w'"

text \<open>The same after \<^verbatim>\<open>j\<close> and a rejected link number.\<close>

definition rejected_jump :: "event \<Rightarrow> int \<Rightarrow> nav_msg \<Rightarrow> string list \<Rightarrow> world \<Rightarrow> world" where
  "rejected_jump menu n warning ls w =
     w\<lparr>console := ls,
       trace := trace w @ [menu, Prompted EnterChoice, Prompted (EnterLinkNumber n), Nav warning]\<rparr>"

text \<open>A world and a link collection for the concrete runs.\<close>

definition quiet_world :: world where
  "quiet_world =
     \<lparr>console = [], trace = [], client = True, convex_url = None,
      read_html = (\<lambda>h. ReadValueError), clock = ''20250101_120000'', disk_ok = True,
      debug_dir_ok = True, action = (\<lambda>n. ActionRaised),
      mutation = (\<lambda>n. MutationReturned ''doc1''),
      pages = (\<lambda>n. \<lparr>goto_ok = True, verification = None, expose_ok = True,
                      inject_ok = True, captures = []\<rparr>)\<rparr>"

definition tx_link :: link_obj where
  "tx_link = \<lparr>link_id = Some ''k1'', state = Some ''TX'', procurementLink = Some ''https://x''\<rparr>"

definition no_url_link :: link_obj where
  "no_url_link = \<lparr>link_id = Some ''k2'', state = None, procurementLink = None\<rparr>"

definition two_links :: "link_obj list" where
  "two_links = [tx_link, no_url_link]"




text \<open>The hotkey, and a cell inside a table, for the concrete run of the selector.\<close>

definition ctrl_alt_s :: key_event where
  "ctrl_alt_s = \<lparr>ctrlKey = True, altKey = True, key = ''S''\<rparr>"

definition table_cell :: element where
  "table_cell =
     Element ''td'' ''<td>TX</td>''
       (Some (Element ''tr'' ''<tr><td>TX</td></tr>''
          (Some (Element ''table'' ''<table><tr><td>TX</td></tr></table>'' None))))"





text \<open>
  What each part of the automatic tiers does to the outside: the structured parse up to
  its verdict, the saving of the debug file, the call of the agent, and the store.
\<close>

definition structured_events :: "world \<Rightarrow> string \<Rightarrow> event list" where
  "structured_events w html_content =
     [Parse (ParsingHtml (int (length html_content))), ReadHtml html_content]
     @ (case read_html w html_content of
          Frames dfs \<Rightarrow>
            (case dfs of
               [] \<Rightarrow> [Parse NoTablesFound]
             | df # others \<Rightarrow>
                 [Parse (FoundFrames (int (length dfs))),
                  if df_empty (dropna_columns (dropna_rows df)) then Parse EmptyAfterCleaning
                  else Parse (ParsedWithPandas
                         (int (length (to_records (dropna_columns (dropna_rows df))))))])
        | ReadValueError \<Rightarrow> [Parse CouldNotParse]
        | ReadError \<Rightarrow> [Parse ParsingError])"

text \<open>
  \<open>debug_events\<close> is what saving the debug file does when the directory can be
  created. When it cannot, saving raises: inside the \<^verbatim>\<open>try\<close> block the handler
  \<^verbatim>\<open>except Exception\<close> prints its warning before saving raises again, which is
  \<open>caught_events\<close>.
\<close>

definition caught_events :: "world \<Rightarrow> string \<Rightarrow> event list" where
  "caught_events w html_content =
     (case read_html w html_content of
        Frames dfs \<Rightarrow> [Parse ParsingError]
      | ReadValueError \<Rightarrow> []
      | ReadError \<Rightarrow> [])"

definition debug_events :: "world \<Rightarrow> string \<Rightarrow> string option \<Rightarrow> event list" where
  "debug_events w html_content source_url =
     (if disk_ok w then
        [WriteFile \<lparr>stamp = clock w,
                    md5_prefix_of = (case source_url of None \<Rightarrow> [] | Some u \<Rightarrow> u)\<rparr>
           source_url html_content,
         Parse (DebugSaved \<lparr>stamp = clock w,
                             md5_prefix_of = (case source_url of None \<Rightarrow> [] | Some u \<Rightarrow> u)\<rparr>)]
      else [Parse DebugSaveFailed])"

definition agent_events :: "string \<Rightarrow> string option \<Rightarrow> ai_outcome \<Rightarrow> event list" where
  "agent_events html_content source_url outcome =
     [Parse AttemptingAI, Action html_content source_url]
     @ (case outcome of
          ActionRaised \<Rightarrow> [Parse AICallError]
        | ActionReturned result \<Rightarrow>
            if ai_success result \<and> ai_data result \<noteq> [] then
              Parse (AIParsed (case ai_rowCount result of
                                 None \<Rightarrow> int (length (ai_data result))
                               | Some n \<Rightarrow> n))
              # (case ai_notes result of
                   None \<Rightarrow> []
                 | Some n \<Rightarrow> if n = [] then [] else [Parse (AINotes n)])
            else [Parse (AIFailed (case ai_error result of
                                     None \<Rightarrow> ''Unknown error''
                                   | Some m \<Rightarrow> m))])"

text \<open>
  The tiers a run has attempted, in order, each with the markup it was given: the
  structured parse is a call of the tabular parser, the AI tier a call of the remote
  action, the manual tier the question whether to paste.
\<close>

datatype tier = Structured string | Assisted string | ManualTier

fun tier_of :: "event \<Rightarrow> tier list" where
  "tier_of (ReadHtml h) = [Structured h]"
| "tier_of (Action h u) = [Assisted h]"
| "tier_of (Prompted ManualPaste) = [ManualTier]"
| "tier_of e = []"

definition tiers :: "event list \<Rightarrow> tier list" where
  "tiers es = concat (map tier_of es)"

definition payload_of :: "link_obj \<Rightarrow> py_record list \<Rightarrow> payload" where
  "payload_of link parsed_data =
     \<lparr>procurementUrlId = link_id link,
      payload_state = (case state link of None \<Rightarrow> ''Unknown'' | Some s \<Rightarrow> s),
      sourceUrl = (case procurementLink link of None \<Rightarrow> [] | Some l \<Rightarrow> l),
      payload_data = parsed_data,
      payload_rowCount = int (length parsed_data)\<rparr>"

definition store_events :: "world \<Rightarrow> link_obj \<Rightarrow> py_record list \<Rightarrow> event list" where
  "store_events w link parsed_data =
     [Store Uploading, Mutation (payload_of link parsed_data),
      Store (case mutation w (calls is_mutation w) of
               MutationReturned result \<Rightarrow> DataSaved result
             | MutationRaised \<Rightarrow> SaveError)]"



definition no_table :: string where
  "no_table = ''<div>TX 100</div>''"

fun is_write_file :: "event \<Rightarrow> bool" where
  "is_write_file (WriteFile name u h) = True"
| "is_write_file e = False"




definition tx_rows :: "py_record list" where
  "tx_rows = [[(''State'', Text ''TX''), (''Amount'', Text [])],
              [(''State'', Text ''CA''), (''Amount'', Text ''100.0'')]]"




text \<open>A world whose store raises on every mutation.\<close>

definition failing_store_world :: world where
  "failing_store_world = quiet_world\<lparr>mutation := (\<lambda>n. MutationRaised)\<rparr>"

text \<open>The header of a manual attempt, and the summary of the manual fallback.\<close>

fun is_attempt :: "event \<Rightarrow> bool" where
  "is_attempt (Manual (ManualAttempt a m)) = True"
| "is_attempt e = False"

fun is_summary :: "event \<Rightarrow> bool" where
  "is_summary (Manual (ErrorSummary errors)) = True"
| "is_summary e = False"

text \<open>
  \<open>w1\<close> is \<open>w\<close> after some input was read and after events that are neither the
  header of a manual attempt nor its summary.
\<close>

definition grows :: "world \<Rightarrow> world \<Rightarrow> bool" where
  "grows w w1 =
     (\<exists>c new. w1 = w\<lparr>console := c, trace := trace w @ new\<rparr>
              \<and> filter is_attempt new = [] \<and> filter is_summary new = [])"














section \<open>The navigator stays in range\<close>

lemma console_emit [simp]: "console (emit e w) = console w"
  by (simp add: emit_def)

lemma console_display_link_menu [simp]: "console (display_link_menu links c w) = console w"
  by (simp add: display_link_menu_def)

lemma input_Nil: "console w = [] \<Longrightarrow> input p w = (Raised EOFError, emit (Prompted p) w)"
  by (simp add: input_def readline_def)

lemma input_Cons:
  "console w = l # ls \<Longrightarrow> input p w = (Done l, (emit (Prompted p) w)\<lparr>console := ls\<rparr>)"
  by (simp add: input_def readline_def)

lemma console_prompted [simp]: "console (prompted menu p w) = tl (console w)"
  by (simp add: prompted_def)

lemma input_after_menu:
  "console w = l # ls \<Longrightarrow> input p (emit menu w) = (Done l, prompted menu p w)"
  by (simp add: input_Cons prompted_def)

lemma get_user_selection_unfold:
  assumes c: "console w = l # ls"
    and r: "get_user_selection links cur w = (Done (GoTo p), w')"
    and w2: "w2 = prompted (Nav (NavigationOptions (int (length links)) cur)) EnterChoice w"
  shows "(cur = None \<and> p = 0)
       \<or> (\<exists>i. cur = Some i \<and> i < int (length links) - 1 \<and> p = i + 1)
       \<or> (\<exists>i. cur = Some i \<and> i \<noteq> 0 \<and> p = i - 1)
       \<or> (0 \<le> p \<and> p < int (length links))
       \<or> (\<exists>v. console v = ls \<and> get_user_selection links cur v = (Done (GoTo p), w'))"
proof -
  have cv: "\<And>m. console (emit m w2) = ls" "console (display_link_menu links cur w2) = ls"
    using c w2 by simp_all
  have inp: "input EnterChoice (emit (Nav (NavigationOptions (int (length links)) cur)) w) = (Done l, w2)"
    using c w2 by (simp add: input_after_menu)
  note u = r [unfolded get_user_selection.simps [of links cur w] Let_def inp prod.case run.case]
  show ?thesis
  proof (cases "lower (strip l) = ''q''")
    case True
    with u show ?thesis by simp
  next
    case nq: False
    show ?thesis
    proof (cases "lower (strip l) = ''l''")
      case True
      with u nq cv(2) show ?thesis by auto
    next
      case nl: False
      show ?thesis
      proof (cases "lower (strip l) = ''n''")
        case True
        with u nq nl cv(1) show ?thesis by (auto split: option.splits if_splits)
      next
        case nn: False
        show ?thesis
        proof (cases "lower (strip l) = ''p''")
          case True
          with u nq nl nn cv(1) show ?thesis by (auto split: option.splits if_splits)
        next
          case False
          with u nq nl nn cv(1) show ?thesis by (auto split: option.splits if_splits)
        qed
      qed
    qed
  qed
qed

lemma get_user_selection_range:
  "console w = cs \<Longrightarrow> links \<noteq> [] \<Longrightarrow>
   (case cur of None \<Rightarrow> True | Some i \<Rightarrow> 0 \<le> i \<and> i < int (length links)) \<Longrightarrow>
   get_user_selection links cur w = (Done (GoTo p), w') \<Longrightarrow> 0 \<le> p \<and> p < int (length links)"
proof (induction cs arbitrary: w)
  case Nil
  then show ?case
    by (simp add: get_user_selection.simps [of links cur w] input_Nil)
next
  case (Cons l ls)
  from get_user_selection_unfold [OF Cons.prems(1) Cons.prems(4) refl] Cons.IH Cons.prems(2,3)
  show ?case by (auto split: option.splits)
qed

lemma get_post_scrape_action_unfold:
  assumes c: "console w = l # ls"
    and r: "get_post_scrape_action links cur w = (Done (GoTo p), w')"
  shows "(cur < int (length links) - 1 \<and> p = cur + 1)
       \<or> (cur > 0 \<and> p = cur - 1)
       \<or> p = cur
       \<or> (0 \<le> p \<and> p < int (length links))
       \<or> (\<exists>v. length (console v) \<le> length ls
              \<and> get_post_scrape_action links cur v = (Done (GoTo p), w'))"
proof -
  define w2 where "w2 = prompted (Nav (PostScrapeOptions (int (length links)) cur)) EnterChoice w"
  have c2: "console w2 = ls"
    using c by (simp add: w2_def)
  have cv: "\<And>m. length (console (emit m w2)) \<le> length ls"
    "length (console (display_link_menu links (Some cur) w2)) \<le> length ls"
    using c2 by simp_all
  have inp: "input EnterChoice (emit (Nav (PostScrapeOptions (int (length links)) cur)) w) = (Done l, w2)"
    using c by (simp add: input_after_menu w2_def)
  note u = r [unfolded get_post_scrape_action.simps [of links cur w] Let_def inp prod.case run.case]
  consider (q) "lower (strip l) = ''q''" | (l) "lower (strip l) = ''l''"
    | (n) "lower (strip l) = ''n''" | (p) "lower (strip l) = ''p''"
    | (r) "lower (strip l) = ''r''" | (j) "lower (strip l) = ''j''"
    | (other) "lower (strip l) \<notin> {''q'', ''l'', ''n'', ''p'', ''r'', ''j''}"
    by auto
  then show ?thesis
  proof cases
    case q
    with u show ?thesis by simp
  next
    case l
    with u cv(2) show ?thesis by auto
  next
    case n
    with u cv(1) show ?thesis by (auto split: if_splits)
  next
    case p
    with u cv(1) show ?thesis by (auto split: if_splits)
  next
    case r
    with u show ?thesis by simp
  next
    case j
    show ?thesis
    proof (cases ls)
      case Nil
      with u j c2 show ?thesis by (simp add: input_Nil)
    next
      case (Cons l2 ls2)
      define w3 where "w3 = (emit (Prompted (EnterLinkNumber (int (length links)))) w2)\<lparr>console := ls2\<rparr>"
      have inp2: "input (EnterLinkNumber (int (length links))) w2 = (Done l2, w3)"
        using c2 Cons by (simp add: input_Cons w3_def)
      have cv3: "\<And>m. length (console (emit m w3)) \<le> length ls"
        using Cons by (simp add: w3_def)
      from u j have "(case py_int (strip l2) of
            None \<Rightarrow> get_post_scrape_action links cur (emit (Nav InvalidNumber) w3)
          | Some num \<Rightarrow> if 1 \<le> num \<and> num \<le> int (length links) then (Done (GoTo (num - 1)), w3)
              else get_post_scrape_action links cur (emit (Nav (NumberBetween (int (length links)))) w3))
          = (Done (GoTo p), w')"
        by (simp add: inp2)
      with cv3 show ?thesis by (auto split: option.splits if_splits)
    qed
  next
    case other
    with u cv(1) show ?thesis by (auto split: option.splits if_splits)
  qed
qed

lemma get_post_scrape_action_range:
  "length (console w) \<le> n \<Longrightarrow> 0 \<le> cur \<Longrightarrow> cur < int (length links) \<Longrightarrow>
   get_post_scrape_action links cur w = (Done (GoTo p), w') \<Longrightarrow> 0 \<le> p \<and> p < int (length links)"
proof (induction n arbitrary: w)
  case 0
  then show ?case
    by (simp add: get_post_scrape_action.simps [of links cur w] input_Nil)
next
  case (Suc n)
  show ?case
  proof (cases "console w")
    case Nil
    with Suc.prems(4) show ?thesis
      by (simp add: get_post_scrape_action.simps [of links cur w] input_Nil)
  next
    case (Cons l ls)
    with Suc.prems(1) have "length ls \<le> n" by simp
    with get_post_scrape_action_unfold [OF Cons Suc.prems(4)] Suc.IH Suc.prems(2,3)
    show ?thesis by (auto dest: order_trans)
  qed
qed


lemma emit_rejected:
  "console w = l # ls \<Longrightarrow> emit (Nav warning) (prompted menu EnterChoice w) = rejected menu warning ls w"
  by (simp add: emit_def prompted_def rejected_def)

lemma py_int_letters:
  "py_int ''q'' = None" "py_int ''l'' = None" "py_int ''n'' = None"
  "py_int ''p'' = None" "py_int ''r'' = None" "py_int ''j'' = None"
  by code_simp+

lemma get_user_selection_step:
  assumes c: "console w = l # ls"
  shows "get_user_selection links cur w =
     (let total = int (length links);
          w2 = prompted (Nav (NavigationOptions total cur)) EnterChoice w;
          choice = lower (strip l)
      in if choice = ''q'' then (Done Quit, w2)
         else if choice = ''l'' then
           get_user_selection links cur (display_link_menu links cur w2)
         else if choice = ''n'' then
           (case cur of
              None \<Rightarrow> (Done (GoTo 0), w2)
            | Some i \<Rightarrow>
                if i < total - 1 then (Done (GoTo (i + 1)), w2)
                else get_user_selection links cur (rejected (Nav (NavigationOptions total cur)) AlreadyLast ls w))
         else if choice = ''p'' then
           (case cur of
              None \<Rightarrow> get_user_selection links cur (rejected (Nav (NavigationOptions total cur)) AlreadyFirst ls w)
            | Some i \<Rightarrow>
                if i = 0 then get_user_selection links cur (rejected (Nav (NavigationOptions total cur)) AlreadyFirst ls w)
                else (Done (GoTo (i - 1)), w2))
         else
           (case py_int choice of
              Some num \<Rightarrow>
                if 1 \<le> num \<and> num \<le> total then (Done (GoTo (num - 1)), w2)
                else get_user_selection links cur (rejected (Nav (NavigationOptions total cur)) (NumberBetween total) ls w)
            | None \<Rightarrow> get_user_selection links cur (rejected (Nav (NavigationOptions total cur)) InvalidInput ls w)))"
  by (subst get_user_selection.simps)
     (simp add: Let_def input_after_menu [OF c] emit_rejected [OF c] cong: if_cong option.case_cong)

lemma get_post_scrape_action_step:
  assumes c: "console w = l # ls"
  shows "get_post_scrape_action links cur w =
     (let total = int (length links);
          menu = Nav (PostScrapeOptions total cur);
          w2 = prompted menu EnterChoice w;
          choice = lower (strip l)
      in if choice = ''q'' then (Done Quit, w2)
         else if choice = ''l'' then
           get_post_scrape_action links cur (display_link_menu links (Some cur) w2)
         else if choice = ''n'' then
           (if cur < total - 1 then (Done (GoTo (cur + 1)), w2)
            else get_post_scrape_action links cur (rejected menu AlreadyLast ls w))
         else if choice = ''p'' then
           (if cur > 0 then (Done (GoTo (cur - 1)), w2)
            else get_post_scrape_action links cur (rejected menu AlreadyFirst ls w))
         else if choice = ''r'' then (Done (GoTo cur), w2)
         else if choice = ''j'' then
           (case input (EnterLinkNumber total) w2 of
              (Raised e, w3) \<Rightarrow> (Raised e, w3)
            | (Hang, w3) \<Rightarrow> (Hang, w3)
            | (Done line2, w3) \<Rightarrow>
                (case py_int (strip line2) of
                   Some num \<Rightarrow>
                     if 1 \<le> num \<and> num \<le> total then (Done (GoTo (num - 1)), w3)
                     else get_post_scrape_action links cur (emit (Nav (NumberBetween total)) w3)
                 | None \<Rightarrow> get_post_scrape_action links cur (emit (Nav InvalidNumber) w3)))
         else
           (case py_int choice of
              Some num \<Rightarrow>
                if 1 \<le> num \<and> num \<le> total then (Done (GoTo (num - 1)), w2)
                else get_post_scrape_action links cur (rejected menu (NumberBetween total) ls w)
            | None \<Rightarrow> get_post_scrape_action links cur (rejected menu InvalidInput ls w)))"
  by (subst get_post_scrape_action.simps)
     (simp add: Let_def input_after_menu [OF c] emit_rejected [OF c] cong: if_cong option.case_cong)

lemma visits_range:
  "visits links w0 i w \<Longrightarrow> links \<noteq> [] \<Longrightarrow> 0 \<le> i \<and> i < int (length links)"
proof (induction rule: visits.induct)
  case (first i w)
  with get_user_selection_range [OF refl, of links None _ i w] show ?case by simp
next
  case (again i w j w')
  then have i: "0 \<le> i" "i < int (length links)" by simp_all
  from again.hyps(2) obtain lnk b w1 where
    "get_post_scrape_action links i w1 = (Done (GoTo j), w')"
    by (auto simp: main_iteration_def split: option.splits prod.splits run.splits)
  with get_post_scrape_action_range [OF order_refl i] show ?case by blast
qed


lemma jump_rejected:
  assumes c: "console w = l # l2 # ls2" and j: "lower (strip l) = ''j''"
  shows "get_post_scrape_action links i w =
     (case py_int (strip l2) of
        Some num \<Rightarrow>
          if 1 \<le> num \<and> num \<le> int (length links)
          then (Done (GoTo (num - 1)),
                (emit (Prompted (EnterLinkNumber (int (length links))))
                   (prompted (Nav (PostScrapeOptions (int (length links)) i)) EnterChoice w))
                \<lparr>console := ls2\<rparr>)
          else get_post_scrape_action links i
                 (rejected_jump (Nav (PostScrapeOptions (int (length links)) i))
                    (int (length links)) (NumberBetween (int (length links))) ls2 w)
      | None \<Rightarrow>
          get_post_scrape_action links i
            (rejected_jump (Nav (PostScrapeOptions (int (length links)) i))
               (int (length links)) InvalidNumber ls2 w))"
proof -
  let ?w2 = "prompted (Nav (PostScrapeOptions (int (length links)) i)) EnterChoice w"
  have c2: "console ?w2 = l2 # ls2" using c by simp
  have e: "\<And>m. emit (Nav m) ((emit (Prompted (EnterLinkNumber (int (length links)))) ?w2)\<lparr>console := ls2\<rparr>)
     = rejected_jump (Nav (PostScrapeOptions (int (length links)) i)) (int (length links)) m ls2 w"
    by (simp add: emit_def prompted_def rejected_jump_def)
  show ?thesis
    by (simp add: get_post_scrape_action_step [OF c] j Let_def input_Cons [OF c2] e
        cong: option.case_cong if_cong)
qed

lemma rejected_choices:
  assumes "console w = l # ls"
  shows
  "(lower (strip l) = ''n'' \<and> i = int (length links) - 1
        \<longrightarrow> get_post_scrape_action links i w
            = get_post_scrape_action links i
                (rejected (Nav (PostScrapeOptions (int (length links)) i)) AlreadyLast ls w)
          \<and> get_user_selection links (Some i) w
            = get_user_selection links (Some i)
                (rejected (Nav (NavigationOptions (int (length links)) (Some i))) AlreadyLast ls w))
   \<and> (lower (strip l) = ''p''
        \<longrightarrow> get_post_scrape_action links 0 w
            = get_post_scrape_action links 0
                (rejected (Nav (PostScrapeOptions (int (length links)) 0)) AlreadyFirst ls w)
          \<and> get_user_selection links (Some 0) w
            = get_user_selection links (Some 0)
                (rejected (Nav (NavigationOptions (int (length links)) (Some 0))) AlreadyFirst ls w)
          \<and> get_user_selection links None w
            = get_user_selection links None
                (rejected (Nav (NavigationOptions (int (length links)) None)) AlreadyFirst ls w))
   \<and> (py_int (lower (strip l)) = Some k \<and> (k < 1 \<or> int (length links) < k)
        \<longrightarrow> get_post_scrape_action links i w
            = get_post_scrape_action links i
                (rejected (Nav (PostScrapeOptions (int (length links)) i))
                   (NumberBetween (int (length links))) ls w)
          \<and> get_user_selection links cur w
            = get_user_selection links cur
                (rejected (Nav (NavigationOptions (int (length links)) cur))
                   (NumberBetween (int (length links))) ls w))
   \<and> (py_int (lower (strip l)) = None \<and> lower (strip l) \<notin> {''q'', ''l'', ''n'', ''p''}
        \<longrightarrow> get_user_selection links cur w
            = get_user_selection links cur
                (rejected (Nav (NavigationOptions (int (length links)) cur)) InvalidInput ls w))
   \<and> (py_int (lower (strip l)) = None
        \<and> lower (strip l) \<notin> {''q'', ''l'', ''n'', ''p'', ''r'', ''j''}
        \<longrightarrow> get_post_scrape_action links i w
            = get_post_scrape_action links i
                (rejected (Nav (PostScrapeOptions (int (length links)) i)) InvalidInput ls w))
   \<and> (lower (strip l) = ''j'' \<and> ls = l2 # ls2 \<and> py_int (strip l2) = None
        \<longrightarrow> get_post_scrape_action links i w
            = get_post_scrape_action links i
                (rejected_jump (Nav (PostScrapeOptions (int (length links)) i))
                   (int (length links)) InvalidNumber ls2 w))
   \<and> (lower (strip l) = ''j'' \<and> ls = l2 # ls2 \<and> py_int (strip l2) = Some k
        \<and> (k < 1 \<or> int (length links) < k)
        \<longrightarrow> get_post_scrape_action links i w
            = get_post_scrape_action links i
                (rejected_jump (Nav (PostScrapeOptions (int (length links)) i))
                   (int (length links)) (NumberBetween (int (length links))) ls2 w))"
proof -
  note c = assms
  have num: "\<And>k. py_int (lower (strip l)) = Some k \<Longrightarrow>
      lower (strip l) \<notin> {''q'', ''l'', ''n'', ''p'', ''r'', ''j''}"
    using py_int_letters by auto
  have j1: "lower (strip l) = ''j'' \<and> ls = l2 # ls2 \<and> py_int (strip l2) = None
        \<longrightarrow> get_post_scrape_action links i w
            = get_post_scrape_action links i
                (rejected_jump (Nav (PostScrapeOptions (int (length links)) i))
                   (int (length links)) InvalidNumber ls2 w)"
    using c by (auto simp: jump_rejected)
  have j2: "lower (strip l) = ''j'' \<and> ls = l2 # ls2 \<and> py_int (strip l2) = Some k
        \<and> (k < 1 \<or> int (length links) < k)
        \<longrightarrow> get_post_scrape_action links i w
            = get_post_scrape_action links i
                (rejected_jump (Nav (PostScrapeOptions (int (length links)) i))
                   (int (length links)) (NumberBetween (int (length links))) ls2 w)"
    using c by (auto simp: jump_rejected)
  show ?thesis
    apply (intro conjI j1 j2 impI)
            apply (simp_all add: get_post_scrape_action_step [OF c] get_user_selection_step [OF c] Let_def)
    using num apply auto
    done
qed



text \<open>
  C1. For a link collection of size \<open>N \<ge> 1\<close> and any operator input: every position
  at which a session processes a link, and every position the two menus return from
  the undefined position or from a position in range, is in \<open>[0, N - 1]\<close>. A
  \<^verbatim>\<open>next\<close> at position \<open>N - 1\<close>, a \<^verbatim>\<open>previous\<close> at position \<open>0\<close> or at the
  undefined position, a number outside \<open>1..N\<close> and a malformed choice or number are
  rejected: the menu runs again from the same position, in the world where only the
  line was consumed and the warning printed.
\<close>

theorem navigator_positions_in_range:
  assumes "links \<noteq> []"
  shows
  "(visits links w0 i v \<longrightarrow> 0 \<le> i \<and> i < int (length links))
   \<and> ((case c0 of None \<Rightarrow> True | Some i0 \<Rightarrow> 0 \<le> i0 \<and> i0 < int (length links))
        \<and> get_user_selection links c0 w = (Done (GoTo p), w')
        \<longrightarrow> 0 \<le> p \<and> p < int (length links))
   \<and> (0 \<le> i \<and> i < int (length links)
        \<and> get_post_scrape_action links i w = (Done (GoTo p), w')
        \<longrightarrow> 0 \<le> p \<and> p < int (length links))
   \<and> (console w = l # ls
        \<longrightarrow>
    (lower (strip l) = ''n'' \<and> i = int (length links) - 1
            \<longrightarrow> get_post_scrape_action links i w
                = get_post_scrape_action links i
                    (rejected (Nav (PostScrapeOptions (int (length links)) i)) AlreadyLast ls w)
              \<and> get_user_selection links (Some i) w
                = get_user_selection links (Some i)
                    (rejected (Nav (NavigationOptions (int (length links)) (Some i))) AlreadyLast ls w))
       \<and> (lower (strip l) = ''p''
            \<longrightarrow> get_post_scrape_action links 0 w
                = get_post_scrape_action links 0
                    (rejected (Nav (PostScrapeOptions (int (length links)) 0)) AlreadyFirst ls w)
              \<and> get_user_selection links (Some 0) w
                = get_user_selection links (Some 0)
                    (rejected (Nav (NavigationOptions (int (length links)) (Some 0))) AlreadyFirst ls w)
              \<and> get_user_selection links None w
                = get_user_selection links None
                    (rejected (Nav (NavigationOptions (int (length links)) None)) AlreadyFirst ls w))
       \<and> (py_int (lower (strip l)) = Some k \<and> (k < 1 \<or> int (length links) < k)
            \<longrightarrow> get_post_scrape_action links i w
                = get_post_scrape_action links i
                    (rejected (Nav (PostScrapeOptions (int (length links)) i))
                       (NumberBetween (int (length links))) ls w)
              \<and> get_user_selection links cur w
                = get_user_selection links cur
                    (rejected (Nav (NavigationOptions (int (length links)) cur))
                       (NumberBetween (int (length links))) ls w))
       \<and> (py_int (lower (strip l)) = None \<and> lower (strip l) \<notin> {''q'', ''l'', ''n'', ''p''}
            \<longrightarrow> get_user_selection links cur w
                = get_user_selection links cur
                    (rejected (Nav (NavigationOptions (int (length links)) cur)) InvalidInput ls w))
       \<and> (py_int (lower (strip l)) = None
            \<and> lower (strip l) \<notin> {''q'', ''l'', ''n'', ''p'', ''r'', ''j''}
            \<longrightarrow> get_post_scrape_action links i w
                = get_post_scrape_action links i
                    (rejected (Nav (PostScrapeOptions (int (length links)) i)) InvalidInput ls w))
       \<and> (lower (strip l) = ''j'' \<and> ls = l2 # ls2 \<and> py_int (strip l2) = None
            \<longrightarrow> get_post_scrape_action links i w
                = get_post_scrape_action links i
                    (rejected_jump (Nav (PostScrapeOptions (int (length links)) i))
                       (int (length links)) InvalidNumber ls2 w))
       \<and> (lower (strip l) = ''j'' \<and> ls = l2 # ls2 \<and> py_int (strip l2) = Some k
            \<and> (k < 1 \<or> int (length links) < k)
            \<longrightarrow> get_post_scrape_action links i w
                = get_post_scrape_action links i
                    (rejected_jump (Nav (PostScrapeOptions (int (length links)) i))
                       (int (length links)) (NumberBetween (int (length links))) ls2 w)))"
proof (intro conjI)
  show "visits links w0 i v \<longrightarrow> 0 \<le> i \<and> i < int (length links)"
    using visits_range assms by blast
next
  show "(case c0 of None \<Rightarrow> True | Some i0 \<Rightarrow> 0 \<le> i0 \<and> i0 < int (length links))
        \<and> get_user_selection links c0 w = (Done (GoTo p), w')
        \<longrightarrow> 0 \<le> p \<and> p < int (length links)"
    using get_user_selection_range [OF refl assms, of c0 w p w'] by blast
next
  show "0 \<le> i \<and> i < int (length links)
        \<and> get_post_scrape_action links i w = (Done (GoTo p), w')
        \<longrightarrow> 0 \<le> p \<and> p < int (length links)"
    using get_post_scrape_action_range [OF order_refl, of i links w p w'] by blast
next
  show "console w = l # ls
        \<longrightarrow>
    (lower (strip l) = ''n'' \<and> i = int (length links) - 1
            \<longrightarrow> get_post_scrape_action links i w
                = get_post_scrape_action links i
                    (rejected (Nav (PostScrapeOptions (int (length links)) i)) AlreadyLast ls w)
              \<and> get_user_selection links (Some i) w
                = get_user_selection links (Some i)
                    (rejected (Nav (NavigationOptions (int (length links)) (Some i))) AlreadyLast ls w))
       \<and> (lower (strip l) = ''p''
            \<longrightarrow> get_post_scrape_action links 0 w
                = get_post_scrape_action links 0
                    (rejected (Nav (PostScrapeOptions (int (length links)) 0)) AlreadyFirst ls w)
              \<and> get_user_selection links (Some 0) w
                = get_user_selection links (Some 0)
                    (rejected (Nav (NavigationOptions (int (length links)) (Some 0))) AlreadyFirst ls w)
              \<and> get_user_selection links None w
                = get_user_selection links None
                    (rejected (Nav (NavigationOptions (int (length links)) None)) AlreadyFirst ls w))
       \<and> (py_int (lower (strip l)) = Some k \<and> (k < 1 \<or> int (length links) < k)
            \<longrightarrow> get_post_scrape_action links i w
                = get_post_scrape_action links i
                    (rejected (Nav (PostScrapeOptions (int (length links)) i))
                       (NumberBetween (int (length links))) ls w)
              \<and> get_user_selection links cur w
                = get_user_selection links cur
                    (rejected (Nav (NavigationOptions (int (length links)) cur))
                       (NumberBetween (int (length links))) ls w))
       \<and> (py_int (lower (strip l)) = None \<and> lower (strip l) \<notin> {''q'', ''l'', ''n'', ''p''}
            \<longrightarrow> get_user_selection links cur w
                = get_user_selection links cur
                    (rejected (Nav (NavigationOptions (int (length links)) cur)) InvalidInput ls w))
       \<and> (py_int (lower (strip l)) = None
            \<and> lower (strip l) \<notin> {''q'', ''l'', ''n'', ''p'', ''r'', ''j''}
            \<longrightarrow> get_post_scrape_action links i w
                = get_post_scrape_action links i
                    (rejected (Nav (PostScrapeOptions (int (length links)) i)) InvalidInput ls w))
       \<and> (lower (strip l) = ''j'' \<and> ls = l2 # ls2 \<and> py_int (strip l2) = None
            \<longrightarrow> get_post_scrape_action links i w
                = get_post_scrape_action links i
                    (rejected_jump (Nav (PostScrapeOptions (int (length links)) i))
                       (int (length links)) InvalidNumber ls2 w))
       \<and> (lower (strip l) = ''j'' \<and> ls = l2 # ls2 \<and> py_int (strip l2) = Some k
            \<and> (k < 1 \<or> int (length links) < k)
            \<longrightarrow> get_post_scrape_action links i w
                = get_post_scrape_action links i
                    (rejected_jump (Nav (PostScrapeOptions (int (length links)) i))
                       (int (length links)) (NumberBetween (int (length links))) ls2 w))"
    by (rule impI) (rule rejected_choices)
qed

lemma choice_literals:
  "lower (strip ''n'') = ''n''" "lower (strip ''q'') = ''q''" "lower (strip ''2'') = ''2''"
  "py_int ''2'' = Some 2"
  by code_simp+

theorem navigator_positions_in_range_witness:
  "two_links \<noteq> []
   \<and> console (quiet_world\<lparr>console := [''n'', ''q'']\<rparr>) = [''n'', ''q'']
   \<and> lower (strip ''n'') = ''n'' \<and> (1::int) = int (length two_links) - 1
   \<and> get_post_scrape_action two_links 1 (quiet_world\<lparr>console := [''n'', ''q'']\<rparr>)
     = get_post_scrape_action two_links 1
         (rejected (Nav (PostScrapeOptions (int (length two_links)) 1)) AlreadyLast [''q'']
            (quiet_world\<lparr>console := [''n'', ''q'']\<rparr>))
   \<and> get_post_scrape_action two_links 1 (quiet_world\<lparr>console := [''n'', ''q'']\<rparr>)
     = (Done Quit,
        quiet_world\<lparr>trace := [Nav (PostScrapeOptions 2 1), Prompted EnterChoice, Nav AlreadyLast,
                               Nav (PostScrapeOptions 2 1), Prompted EnterChoice]\<rparr>)
   \<and> visits two_links (quiet_world\<lparr>console := [''2'']\<rparr>) 1
       (quiet_world\<lparr>trace := [Nav (LinkLine False 1 ''TX'' ''https://x''),
                               Nav (LinkLine False 2 ''Unknown'' ''N/A''),
                               Nav (NavigationOptions 2 None), Prompted EnterChoice]\<rparr>)
   \<and> (0::int) \<le> 1 \<and> (1::int) < int (length two_links)"
proof -
  let ?w = "quiet_world\<lparr>console := [''n'', ''q'']\<rparr>"
  let ?start = "quiet_world\<lparr>console := [''2'']\<rparr>"
  let ?chosen = "quiet_world\<lparr>trace := [Nav (LinkLine False 1 ''TX'' ''https://x''),
                               Nav (LinkLine False 2 ''Unknown'' ''N/A''),
                               Nav (NavigationOptions 2 None), Prompted EnterChoice]\<rparr>"
  have c: "console ?w = ''n'' # [''q'']" by simp
  have l: "two_links \<noteq> []" by (simp add: two_links_def)
  have r: "console (rejected (Nav (PostScrapeOptions 2 1)) AlreadyLast [''q''] ?w) = ''q'' # []"
    by (simp add: rejected_def)
  have q: "get_post_scrape_action two_links 1
             (rejected (Nav (PostScrapeOptions 2 1)) AlreadyLast [''q''] ?w)
           = (Done Quit,
              quiet_world\<lparr>trace := [Nav (PostScrapeOptions 2 1), Prompted EnterChoice, Nav AlreadyLast,
                               Nav (PostScrapeOptions 2 1), Prompted EnterChoice]\<rparr>)"
    by (subst get_post_scrape_action_step [OF r])
       (simp add: choice_literals Let_def two_links_def prompted_def rejected_def emit_def
          quiet_world_def)
  have c0: "console (display_link_menu two_links None ?start) = ''2'' # []" by simp
  have "get_user_selection two_links None (display_link_menu two_links None ?start)
          = (Done (GoTo 1), ?chosen)"
    by (subst get_user_selection_step [OF c0])
       (simp add: choice_literals Let_def two_links_def tx_link_def no_url_link_def
          prompted_def emit_def display_link_menu_def link_line_def display_url_def
          quiet_world_def)
  then have v: "visits two_links ?start 1 ?chosen" by (rule visits.first)
  note t = navigator_positions_in_range [OF l, where w = ?w and l = "''n''" and ls = "[''q'']"
             and i = 1 and ?w0.0 = ?start and v = ?chosen]
  from t [THEN conjunct1] v have range: "(0::int) \<le> 1 \<and> (1::int) < int (length two_links)"
    by blast
  have f2: "console ?w = [''n'', ''q'']" by simp
  have f3: "lower (strip ''n'') = ''n''" by (rule choice_literals(1))
  have f4: "(1::int) = int (length two_links) - 1" by (simp add: two_links_def)
  from t [THEN conjunct2, THEN conjunct2, THEN conjunct2] c f3 f4
  have e1: "get_post_scrape_action two_links 1 ?w
     = get_post_scrape_action two_links 1
         (rejected (Nav (PostScrapeOptions (int (length two_links)) 1)) AlreadyLast [''q''] ?w)"
    by blast
  have n: "int (length two_links) = 2" by (simp add: two_links_def)
  note e2 = trans [OF e1 [unfolded n] q]
  show ?thesis
    using l f2 f3 f4 e1 e2 v range by blast
qed


section \<open>Capture resolution\<close>

lemma hook_calls_Result: "hook_calls ms (Result v) = Done (Result v)"
  by (induction ms) (simp_all add: on_selection_def)

text \<open>
  C2. On the fresh future of a page, the first invocation of the hook resolves it with
  its markup; a second invocation, with any markup, returns the future as it was, and
  so does any longer run of invocations: the awaiting host reads the first markup.
\<close>

theorem capture_resolved_once:
  "on_selection m1 create_future = Done (Result m1)
   \<and> on_selection m2 (Result m1) = Done (Result m1)
   \<and> hook_calls (m1 # m2 # ms) create_future = Done (Result m1)
   \<and> await (Result m1) = Done m1"
  by (simp add: on_selection_def create_future_def hook_calls_Result)

section \<open>Links that are skipped\<close>

lemma calls_emit: "calls kind (emit e w) = (if kind e then Suc (calls kind w) else calls kind w)"
  by (simp add: calls_def emit_def)






section \<open>The hotkey with nothing highlighted\<close>

lemma lower_S: "lower ''S'' = ''s''"
  by code_simp

text \<open>
  C9. In the hotkey variant, when Ctrl+Alt+S arrives while the selector is active and no
  element is highlighted, the handler only cancels the event's default action, turns the
  banner into the warning and schedules its reversal: the host hook is not invoked, both
  listeners stay installed and the selector stays active, so a fresh capture future is
  still pending. The scheduled timeout puts the banner back, and a later trigger, once
  an element is highlighted, sends that element's enclosing markup.
\<close>

theorem hotkey_without_highlight_keeps_waiting:
  assumes "isActive s" and "keydown_listener s" and "mouseover_listener s"
    and "lastElement s = None"
    and "ctrlKey event" and "altKey event" and "lower (key event) = ''s''"
  shows "keydown event s
           = s\<lparr>prevented := prevented s + 1,
                banner_of := \<lparr>background = Red, status = NoElementHighlighted\<rparr>,
                timers := timers s @ [(2000, RevertBanner)]\<rparr>
       \<and> sent (keydown event s) = sent s
       \<and> isActive (keydown event s)
       \<and> keydown_listener (keydown event s)
       \<and> mouseover_listener (keydown event s)
       \<and> banner_of (run_timer RevertBanner (keydown event s))
           = \<lparr>background = Purple, status = SelectorActive\<rparr>
       \<and> (sent s = [] \<longrightarrow> hook_calls (sent (keydown event s)) create_future = Done Pending
                             \<and> await Pending = Hang)
       \<and> sent (keydown event (mouseover (OnElement e) (keydown event s)))
           = sent s @ [outerHTML (case closest_table e of None \<Rightarrow> e | Some t \<Rightarrow> t)]"
  using assms
  by (simp add: keydown_def keydownHandler_def mouseover_def mouseOverHandler_def Let_def
        create_future_def)

theorem hotkey_without_highlight_keeps_waiting_witness:
  "keydown ctrl_alt_s SELECTOR_JS
     = SELECTOR_JS\<lparr>prevented := 1,
                   banner_of := \<lparr>background = Red, status = NoElementHighlighted\<rparr>,
                   timers := [(2000, RevertBanner)]\<rparr>
   \<and> sent (keydown ctrl_alt_s SELECTOR_JS) = []
   \<and> hook_calls (sent (keydown ctrl_alt_s SELECTOR_JS)) create_future = Done Pending
   \<and> sent (keydown ctrl_alt_s (mouseover (OnElement table_cell) (keydown ctrl_alt_s SELECTOR_JS)))
     = [''<table><tr><td>TX</td></tr></table>'']"
proof -
  have a: "isActive SELECTOR_JS" "keydown_listener SELECTOR_JS" "mouseover_listener SELECTOR_JS"
    "lastElement SELECTOR_JS = None"
    by (simp_all add: SELECTOR_JS_def)
  have k: "ctrlKey ctrl_alt_s" "altKey ctrl_alt_s" "lower (key ctrl_alt_s) = ''s''"
    by (simp_all add: ctrl_alt_s_def lower_S)
  have c: "closest_table table_cell
             = Some (Element ''table'' ''<table><tr><td>TX</td></tr></table>'' None)"
    by (simp add: table_cell_def)
  have z: "sent SELECTOR_JS = []" "prevented SELECTOR_JS = 0" "timers SELECTOR_JS = []"
    by (simp_all add: SELECTOR_JS_def)
  note t = hotkey_without_highlight_keeps_waiting [OF a k, of table_cell]
  have w1: "keydown ctrl_alt_s SELECTOR_JS
     = SELECTOR_JS\<lparr>prevented := 1,
                   banner_of := \<lparr>background = Red, status = NoElementHighlighted\<rparr>,
                   timers := [(2000, RevertBanner)]\<rparr>"
    using t [THEN conjunct1] by (simp add: z)
  have w2: "sent (keydown ctrl_alt_s SELECTOR_JS) = []"
    using t [THEN conjunct2, THEN conjunct1] by (simp add: z)
  have w3: "hook_calls (sent (keydown ctrl_alt_s SELECTOR_JS)) create_future = Done Pending"
    using t [THEN conjunct2, THEN conjunct2, THEN conjunct2, THEN conjunct2, THEN conjunct2,
             THEN conjunct2, THEN conjunct1] z(1) by blast
  have w4: "sent (keydown ctrl_alt_s (mouseover (OnElement table_cell) (keydown ctrl_alt_s SELECTOR_JS)))
     = [''<table><tr><td>TX</td></tr></table>'']"
    using t [THEN conjunct2, THEN conjunct2, THEN conjunct2, THEN conjunct2, THEN conjunct2,
             THEN conjunct2, THEN conjunct2] by (simp add: z c)
  show ?thesis
    using w1 w2 w3 w4 by blast
qed

section \<open>Rows of the structured parse\<close>




lemma missing_becomes_empty: "astype_str (fillna Missing) = Text []"
  by simp


section \<open>The automatic tiers\<close>

lemma debug_events_trace [simp]:
  "debug_events (w\<lparr>trace := t\<rparr>) html_content source_url = debug_events w html_content source_url"
  by (simp add: debug_events_def)

lemma caught_events_trace [simp]:
  "caught_events (w\<lparr>trace := t\<rparr>) html_content = caught_events w html_content"
  by (simp add: caught_events_def)








lemma tiers_simps [simp]:
  "tiers [] = []" "tiers (e # es) = tier_of e @ tiers es" "tiers (xs @ ys) = tiers xs @ tiers ys"
  by (simp_all add: tiers_def)

lemma tiers_structured_events [simp]: "tiers (structured_events w h) = [Structured h]"
  by (simp add: structured_events_def split: read_result.splits list.splits)

lemma tiers_debug_events [simp]: "tiers (debug_events w h u) = []"
  by (simp add: debug_events_def)

lemma tiers_caught_events [simp]: "tiers (caught_events w h) = []"
  by (simp add: caught_events_def split: read_result.splits)

lemma tiers_agent_events [simp]: "tiers (agent_events h u outcome) = [Assisted h]"
  by (simp add: agent_events_def split: ai_outcome.splits option.splits)

lemma tiers_store_events [simp]: "tiers (store_events w link parsed_data) = []"
  by (simp add: store_events_def)




lemma client_trace [simp]: "client (w\<lparr>trace := t\<rparr>) = client w"
  by simp
















lemma write_file_agent [simp]: "filter is_write_file (agent_events h u outcome) = []"
  by (simp add: agent_events_def split: ai_outcome.splits option.splits)

lemma write_file_caught [simp]: "filter is_write_file (caught_events w h) = []"
  by (simp add: caught_events_def split: read_result.splits)






section \<open>Failures of the remote calls\<close>

text \<open>
  C8. Once the client is initialised, an exception of the store's mutation is printed and
  turned into \<^verbatim>\<open>None\<close>, with the payload holding the rows as they were computed;
  the link's processing still closes the page and returns success. An exception of the
  AI action is printed and turned into \<^verbatim>\<open>None\<close> as well. Neither reaches the caller.
\<close>

theorem remote_failures_are_absorbed:
  assumes "init_convex_client w = (Done (), v)"
  shows "(mutation v (calls is_mutation v) = MutationRaised
          \<longrightarrow> save_procurement_data_to_convex link parsed_data w
                = (Done None,
                   v\<lparr>trace := trace v @ [Store Uploading, Mutation (payload_of link parsed_data),
                                          Store SaveError]\<rparr>)
            \<and> payload_data (payload_of link parsed_data) = parsed_data
            \<and> store_and_close link (Some parsed_data) w
                = (Done True,
                   v\<lparr>trace := trace v @ [Store Uploading, Mutation (payload_of link parsed_data),
                                          Store SaveError, ClosePage]\<rparr>))
       \<and> (action v (calls is_action v) = ActionRaised
          \<longrightarrow> parse_with_ai_agent html_content source_url w
                = (Done None,
                   v\<lparr>trace := trace v @ [Parse AttemptingAI, Action html_content source_url,
                                          Parse AICallError]\<rparr>))"
  using assms
  by (simp add: save_procurement_data_to_convex_def store_and_close_def parse_with_ai_agent_def
        Let_def payload_of_def emit_def calls_def)

theorem remote_failures_are_absorbed_witness:
  "init_convex_client failing_store_world = (Done (), failing_store_world)
   \<and> mutation failing_store_world (calls is_mutation failing_store_world) = MutationRaised
   \<and> store_and_close tx_link (Some tx_rows) failing_store_world
       = (Done True,
          failing_store_world\<lparr>trace :=
            [Store Uploading, Mutation (payload_of tx_link tx_rows), Store SaveError, ClosePage]\<rparr>)
   \<and> action failing_store_world (calls is_action failing_store_world) = ActionRaised
   \<and> parse_with_ai_agent no_table (Some ''https://x'') failing_store_world
       = (Done None,
          failing_store_world\<lparr>trace :=
            [Parse AttemptingAI, Action no_table (Some ''https://x''), Parse AICallError]\<rparr>)"
proof -
  have i: "init_convex_client failing_store_world = (Done (), failing_store_world)"
    by (simp add: init_convex_client_def failing_store_world_def quiet_world_def)
  have f: "mutation failing_store_world (calls is_mutation failing_store_world) = MutationRaised"
    "action failing_store_world (calls is_action failing_store_world) = ActionRaised"
    "trace failing_store_world = []"
    by (simp_all add: failing_store_world_def quiet_world_def)
  from remote_failures_are_absorbed [OF i, of tx_link tx_rows no_table "Some ''https://x''"] i f
  show ?thesis by simp
qed

section \<open>The manual fallback\<close>


lemma grows_trans: "grows w v \<Longrightarrow> grows v u \<Longrightarrow> grows w u"
proof -
  assume "grows w v" and "grows v u"
  then obtain c n c' n' where v: "v = w\<lparr>console := c, trace := trace w @ n\<rparr>"
    and n: "filter is_attempt n = []" "filter is_summary n = []"
    and u: "u = v\<lparr>console := c', trace := trace v @ n'\<rparr>"
    and n': "filter is_attempt n' = []" "filter is_summary n' = []"
    unfolding grows_def by blast
  have "u = w\<lparr>console := c', trace := trace w @ (n @ n')\<rparr>"
    using v u by simp
  moreover have "filter is_attempt (n @ n') = []" "filter is_summary (n @ n') = []"
    using n n' by simp_all
  ultimately show ?thesis
    unfolding grows_def by blast
qed

lemma grows_emit_after [simp]:
  "grows w v \<Longrightarrow> \<not> is_attempt e \<Longrightarrow> \<not> is_summary e \<Longrightarrow> grows w (emit e v)"
proof -
  assume "grows w v" and e: "\<not> is_attempt e" "\<not> is_summary e"
  moreover have "grows v (emit e v)"
    unfolding grows_def emit_def
    using e by (intro exI [of _ "console v"] exI [of _ "[e]"]) simp
  ultimately show ?thesis by (blast intro: grows_trans)
qed

lemma grows_console_after [simp]: "grows w v \<Longrightarrow> grows w (v\<lparr>console := c\<rparr>)"
proof -
  assume "grows w v"
  moreover have "grows v (v\<lparr>console := c\<rparr>)"
    unfolding grows_def
    by (intro exI [of _ c] exI [of _ "[]"]) simp
  ultimately show ?thesis by (blast intro: grows_trans)
qed





































section \<open>The order of the tiers\<close>






























end
